theory Spec2Isabelle
  imports Main
begin

section \<open>The values of the program\<close>

text \<open>
  \<^verbatim>\<open>chess.js\<close> keeps its whole state in two module variables, \<^verbatim>\<open>board\<close> and
  \<^verbatim>\<open>currentPlayer\<close>. At start they hold an array of arrays of strings and a string, but
  \<^verbatim>\<open>loadGame\<close> assigns to them whatever \<^verbatim>\<open>JSON.parse\<close> found in the file, so both are
  modelled as JavaScript values.

  A JavaScript string is a sequence of UTF-16 code units; a code unit is a natural
  number here, and \<open>str\<close> gives the code units of an ASCII literal.
  A number is carried as the literal it was read from: the program never computes with
  a number it loaded, it only finds that it is no string.
\<close>

type_synonym jsstring = "nat list"

abbreviation (input) str :: "string \<Rightarrow> jsstring" where
  "str s \<equiv> map of_char s"

datatype jsval =
    JUndefined
  | JNull
  | JBool bool
  | JNum jsstring
  | JStr jsstring
  | JArr "jsval list"
  | JObj "(jsstring \<times> jsval) list"

text \<open>
  What the program can throw: the \<^verbatim>\<open>Error\<close> that \<^verbatim>\<open>parseMove\<close> creates with its
  message, the \<^verbatim>\<open>TypeError\<close> of the runtime and the error of a failed file operation
  (their messages are the engine's own text). The \<^verbatim>\<open>SyntaxError\<close> of \<^verbatim>\<open>JSON.parse\<close>
  never leaves \<^verbatim>\<open>loadGame\<close>; it is the result \<open>None\<close> of \<open>JSON_parse\<close> below.
\<close>

datatype js_error =
    Error jsstring
  | TypeError
  | IOError

text \<open>The decimal numeral of a number, as \<^verbatim>\<open>`${8 - i}`\<close> and a numeric property key give it.\<close>

fun decimal :: "nat \<Rightarrow> jsstring" where
  "decimal n = (if n < 10 then [48 + n] else decimal (n div 10) @ [48 + n mod 10])"

declare decimal.simps [simp del]

text \<open>
  The own properties of an object, in the order JavaScript enumerates them: the keys that
  are array indices (canonical numerals below \<open>2^32 - 1\<close>) first, in ascending order,
  then the other keys in the order they were created. Setting an existing key keeps its
  place.
\<close>

definition index_value :: "jsstring \<Rightarrow> nat" where
  "index_value k = foldl (\<lambda>a c. 10 * a + (c - 48)) 0 k"

definition is_index_key :: "jsstring \<Rightarrow> bool" where
  "is_index_key k =
     (k \<noteq> [] \<and> list_all (\<lambda>c. 48 \<le> c \<and> c \<le> 57) k \<and> (k = [48] \<or> hd k \<noteq> 48) \<and>
      index_value k < 4294967295)"

fun insert_index :: "jsstring \<Rightarrow> jsval \<Rightarrow> (jsstring \<times> jsval) list \<Rightarrow> (jsstring \<times> jsval) list" where
  "insert_index k v [] = [(k, v)]"
| "insert_index k v ((k', v') # kvs) =
     (if is_index_key k' \<and> index_value k' < index_value k
      then (k', v') # insert_index k v kvs
      else (k, v) # (k', v') # kvs)"

definition obj_put :: "(jsstring \<times> jsval) list \<Rightarrow> jsstring \<Rightarrow> jsval \<Rightarrow> (jsstring \<times> jsval) list" where
  "obj_put kvs k v =
     (if k \<in> fst ` set kvs then map (\<lambda>(k', v'). if k' = k then (k', v) else (k', v')) kvs
      else if is_index_key k then insert_index k v kvs
      else kvs @ [(k, v)])"

text \<open>
  Reading \<^verbatim>\<open>v[i]\<close> for a number \<open>i\<close>. On \<^verbatim>\<open>undefined\<close> and \<^verbatim>\<open>null\<close> it throws; a
  string gives its \<open>i\<close>-th code unit as a string; an array its \<open>i\<close>-th element; an
  object its property named by the numeral of \<open>i\<close>; everything that is not there reads
  as \<^verbatim>\<open>undefined\<close>.
\<close>

fun js_index :: "jsval \<Rightarrow> nat \<Rightarrow> js_error + jsval" where
  "js_index JUndefined i = Inl TypeError"
| "js_index JNull i = Inl TypeError"
| "js_index (JBool b) i = Inr JUndefined"
| "js_index (JNum n) i = Inr JUndefined"
| "js_index (JStr s) i = Inr (if i < length s then JStr [s ! i] else JUndefined)"
| "js_index (JArr xs) i = Inr (if i < length xs then xs ! i else JUndefined)"
| "js_index (JObj kvs) i =
     Inr (case map_of kvs (decimal i) of Some v \<Rightarrow> v | None \<Rightarrow> JUndefined)"

text \<open>
  Reading a property by name, \<^verbatim>\<open>state.board\<close> and \<^verbatim>\<open>state.currentPlayer\<close>. No
  prototype defines either name, so only an object's own properties count.
\<close>

fun js_member :: "jsval \<Rightarrow> jsstring \<Rightarrow> js_error + jsval" where
  "js_member JUndefined k = Inl TypeError"
| "js_member JNull k = Inl TypeError"
| "js_member (JObj kvs) k =
     Inr (case map_of kvs k of Some v \<Rightarrow> v | None \<Rightarrow> JUndefined)"
| "js_member v k = Inr JUndefined"

text \<open>
  The assignment \<^verbatim>\<open>v[i] = x\<close>, giving \<open>v\<close> as it is afterwards. The script is a
  CommonJS module without \<^verbatim>\<open>'use strict'\<close>: assigning to a property of a boolean, a
  number or a string does nothing. An array that is too short grows, the gap reading
  as \<^verbatim>\<open>undefined\<close>.
\<close>

fun js_assign :: "jsval \<Rightarrow> nat \<Rightarrow> jsval \<Rightarrow> js_error + jsval" where
  "js_assign JUndefined i x = Inl TypeError"
| "js_assign JNull i x = Inl TypeError"
| "js_assign (JArr xs) i x =
     Inr (JArr (if i < length xs then xs[i := x]
                else xs @ replicate (i - length xs) JUndefined @ [x]))"
| "js_assign (JObj kvs) i x = Inr (JObj (obj_put kvs (decimal i) x))"
| "js_assign v i x = Inr v"

text \<open>
  \<^verbatim>\<open>board[r][c] = x\<close> changes the row object in place. The rows of a board are
  separate objects (the array literal and \<^verbatim>\<open>JSON.parse\<close> both build a tree), so the
  board afterwards is the board with its \<open>r\<close>-th entry replaced by the changed row.
  A board that is a string has one-character strings as rows, which no assignment
  changes.
\<close>

fun with_row :: "jsval \<Rightarrow> nat \<Rightarrow> jsval \<Rightarrow> jsval" where
  "with_row (JArr xs) r row = JArr (xs[r := row])"
| "with_row (JObj kvs) r row =
     JObj (map (\<lambda>(k, v). if k = decimal r then (k, row) else (k, v)) kvs)"
| "with_row b r row = b"

definition assign_cell :: "jsval \<Rightarrow> nat \<Rightarrow> nat \<Rightarrow> jsval \<Rightarrow> js_error + jsval" where
  "assign_cell b r c x =
     (case js_index b r of
        Inl e \<Rightarrow> Inl e
      | Inr row \<Rightarrow>
          (case js_assign row c x of
             Inl e \<Rightarrow> Inl e
           | Inr row' \<Rightarrow> Inr (with_row b r row')))"

text \<open>
  \<^verbatim>\<open>piece.toUpperCase()\<close>. Only a string has the method; on every other value the
  call throws a TypeError. Letters \<open>a\<close> to \<open>z\<close> are mapped to \<open>A\<close> to \<open>Z\<close>, as
  JavaScript does on ASCII; the letters beyond ASCII that JavaScript also maps are
  left as they are here, none of them being a piece tag.
\<close>

definition upper_unit :: "nat \<Rightarrow> nat" where
  "upper_unit c = (if 97 \<le> c \<and> c \<le> 122 then c - 32 else c)"

fun toUpperCase :: "jsval \<Rightarrow> js_error + jsval" where
  "toUpperCase (JStr s) = Inr (JStr (map upper_unit s))"
| "toUpperCase v = Inl TypeError"

text \<open>
  The conversion to a string that a template literal performs. A number gives its
  literal; an array its elements joined by commas, \<^verbatim>\<open>null\<close> and \<^verbatim>\<open>undefined\<close> giving
  nothing.
\<close>

fun join_commas :: "jsstring list \<Rightarrow> jsstring" where
  "join_commas [] = []"
| "join_commas [s] = s"
| "join_commas (s # t # ss) = s @ 44 # join_commas (t # ss)"

fun to_string :: "jsval \<Rightarrow> jsstring" where
  "to_string JUndefined = str ''undefined''"
| "to_string JNull = str ''null''"
| "to_string (JBool b) = (if b then str ''true'' else str ''false'')"
| "to_string (JNum n) = n"
| "to_string (JStr s) = s"
| "to_string (JArr xs) =
     join_commas (map (\<lambda>x. if x = JUndefined \<or> x = JNull then [] else to_string x) xs)"
| "to_string (JObj kvs) = str ''[object Object]''"

section \<open>The game state\<close>

text \<open>The two module variables \<^verbatim>\<open>board\<close> and \<^verbatim>\<open>currentPlayer\<close>.\<close>

record game_state =
  board :: jsval
  currentPlayer :: jsval

abbreviation (input) S :: "string \<Rightarrow> jsval" where
  "S s \<equiv> JStr (str s)"

definition initial_board :: jsval where
  "initial_board = JArr [
     JArr [S ''r'', S ''n'', S ''b'', S ''q'', S ''k'', S ''b'', S ''n'', S ''r''],
     JArr [S ''p'', S ''p'', S ''p'', S ''p'', S ''p'', S ''p'', S ''p'', S ''p''],
     JArr [S ''.'', S ''.'', S ''.'', S ''.'', S ''.'', S ''.'', S ''.'', S ''.''],
     JArr [S ''.'', S ''.'', S ''.'', S ''.'', S ''.'', S ''.'', S ''.'', S ''.''],
     JArr [S ''.'', S ''.'', S ''.'', S ''.'', S ''.'', S ''.'', S ''.'', S ''.''],
     JArr [S ''.'', S ''.'', S ''.'', S ''.'', S ''.'', S ''.'', S ''.'', S ''.''],
     JArr [S ''P'', S ''P'', S ''P'', S ''P'', S ''P'', S ''P'', S ''P'', S ''P''],
     JArr [S ''R'', S ''N'', S ''B'', S ''Q'', S ''K'', S ''B'', S ''N'', S ''R'']]"

definition initial_state :: game_state where
  "initial_state = \<lparr>board = initial_board, currentPlayer = S ''white''\<rparr>"

section \<open>Output\<close>

text \<open>
  Every \<^verbatim>\<open>console.log\<close> call is one entry of the output. Its text is a list of segments,
  each with the \<^verbatim>\<open>chalk\<close> colour it was wrapped in. The \<^verbatim>\<open>catch\<close> of \<^verbatim>\<open>makeMove\<close>
  logs \<^verbatim>\<open>error.message\<close> in red: the message of the \<^verbatim>\<open>Error\<close> the program created,
  or, for an error of the runtime, a text of the engine, which \<open>LogMessage\<close> stands for.
\<close>

datatype chalk = NoChalk | Green | Red | Yellow | Blue | Cyan | Gray | White | Black

type_synonym line = "(chalk \<times> jsstring) list"

datatype logged = Log line | LogMessage chalk js_error

fun log_error_message :: "js_error \<Rightarrow> logged" where
  "log_error_message (Error m) = Log [(Red, m)]"
| "log_error_message e = LogMessage Red e"

section \<open>displayBoard\<close>

definition read_cell :: "jsval \<Rightarrow> nat \<Rightarrow> nat \<Rightarrow> js_error + jsval" where
  "read_cell b i j =
     (case js_index b i of Inl e \<Rightarrow> Inl e | Inr row \<Rightarrow> js_index row j)"

text \<open>One turn of the inner loop: what it appends to \<^verbatim>\<open>row\<close>, or the error it throws.\<close>

definition render_cell :: "game_state \<Rightarrow> nat \<Rightarrow> nat \<Rightarrow> js_error + line" where
  "render_cell s i j =
     (case read_cell (board s) i j of
        Inl e \<Rightarrow> Inl e
      | Inr piece \<Rightarrow>
          if piece = S ''.'' then Inr [(Gray, str ''.''), (NoChalk, str '' '')]
          else (case toUpperCase piece of
                  Inl e \<Rightarrow> Inl e
                | Inr up \<Rightarrow>
                    Inr [(if up = piece then White else Black, to_string piece),
                         (NoChalk, str '' '')]))"

fun render_cells :: "game_state \<Rightarrow> nat \<Rightarrow> nat list \<Rightarrow> js_error + line" where
  "render_cells s i [] = Inr []"
| "render_cells s i (j # js) =
     (case render_cell s i j of
        Inl e \<Rightarrow> Inl e
      | Inr c \<Rightarrow>
          (case render_cells s i js of Inl e \<Rightarrow> Inl e | Inr cs \<Rightarrow> Inr (c @ cs)))"

text \<open>
  The outer loop over the rows \<open>is\<close>: the lines it logged, and the error that ended it,
  if one did.
\<close>

fun display_rows :: "game_state \<Rightarrow> nat list \<Rightarrow> logged list \<times> js_error option" where
  "display_rows s [] = ([], None)"
| "display_rows s (i # is) =
     (case render_cells s i [0, 1, 2, 3, 4, 5, 6, 7] of
        Inl e \<Rightarrow> ([], Some e)
      | Inr cells \<Rightarrow>
          (case display_rows s is of
             (out, err) \<Rightarrow>
               (Log ((NoChalk, decimal (8 - i) @ str '' '') # cells @ [(NoChalk, decimal (8 - i))])
                  # out, err)))"

definition displayBoard :: "game_state \<Rightarrow> logged list \<times> js_error option" where
  "displayBoard s =
     (case display_rows s [0, 1, 2, 3, 4, 5, 6, 7] of
        (rows, Some e) \<Rightarrow> (Log [(Blue, str ''  a b c d e f g h'')] # rows, Some e)
      | (rows, None) \<Rightarrow>
          (Log [(Blue, str ''  a b c d e f g h'')] # rows @
           [Log [(Blue, str ''  a b c d e f g h'')],
            Log [(Cyan, str ''Current player: '' @ to_string (currentPlayer s))]],
           None))"

section \<open>parseMove\<close>

text \<open>
  The test \<^verbatim>\<open>/^[a-h][1-8][a-h][1-8]$/.test(move)\<close>: without the \<^verbatim>\<open>m\<close> flag the anchors
  are the two ends of the string, so it holds of exactly the strings of four code
  units, a file letter, a rank digit, a file letter and a rank digit.
\<close>

definition is_file :: "nat \<Rightarrow> bool" where
  "is_file c = (of_char CHR ''a'' \<le> c \<and> c \<le> of_char CHR ''h'')"

definition is_rank :: "nat \<Rightarrow> bool" where
  "is_rank c = (of_char CHR ''1'' \<le> c \<and> c \<le> of_char CHR ''8'')"

definition matches_move :: "jsstring \<Rightarrow> bool" where
  "matches_move move =
     (length move = 4 \<and> is_file (move ! 0) \<and> is_rank (move ! 1) \<and>
      is_file (move ! 2) \<and> is_rank (move ! 3))"

text \<open>
  \<^verbatim>\<open>parseInt\<close> on a one-character string holding a decimal digit, the only strings the
  test lets through. The subtractions are on natural numbers; past the test none of them
  goes below zero.
\<close>

definition parseInt_digit :: "nat \<Rightarrow> nat" where
  "parseInt_digit c = c - of_char CHR ''0''"

type_synonym coordinate = "nat \<times> nat"

definition parseMove :: "jsstring \<Rightarrow> js_error + (coordinate \<times> coordinate)" where
  "parseMove move =
     (if \<not> matches_move move
      then Inl (Error (str ''Invalid move format. Use algebraic notation (e.g., e2e4).''))
      else
        let fromCol = move ! 0 - of_char CHR ''a'';
            fromRow = 8 - parseInt_digit (move ! 1);
            toCol = move ! 2 - of_char CHR ''a'';
            toRow = 8 - parseInt_digit (move ! 3)
        in Inr ((fromRow, fromCol), (toRow, toCol)))"

section \<open>isValidMove\<close>

definition isValidMove :: "game_state \<Rightarrow> coordinate \<Rightarrow> coordinate \<Rightarrow> js_error + bool" where
  "isValidMove s from to =
     (case from of (fromRow, fromCol) \<Rightarrow>
      case to of (toRow, toCol) \<Rightarrow>
      case read_cell (board s) fromRow fromCol of
        Inl e \<Rightarrow> Inl e
      | Inr piece \<Rightarrow>
          if piece = S ''.'' then Inr False
          else (case toUpperCase piece of
             Inl e \<Rightarrow> Inl e
           | Inr up \<Rightarrow>
               let isWhitePiece = (up = piece) in
               if (currentPlayer s = S ''white'' \<and> \<not> isWhitePiece) \<or>
                  (currentPlayer s = S ''black'' \<and> isWhitePiece)
               then Inr False
               else (case read_cell (board s) toRow toCol of
                  Inl e \<Rightarrow> Inl e
                | Inr destPiece \<Rightarrow>
                    if destPiece = S ''.'' then Inr True
                    else (case toUpperCase destPiece of
                       Inl e \<Rightarrow> Inl e
                     | Inr destUp \<Rightarrow>
                         let isDestWhite = (destUp = destPiece) in
                         Inr (isWhitePiece \<noteq> isDestWhite)))))"

section \<open>makeMove\<close>

text \<open>
  The three assignments of \<^verbatim>\<open>makeMove\<close> (lines 98 to 100), on a state: the state
  reached, and the error that stopped them, if one did. In the first assignment
  JavaScript evaluates \<^verbatim>\<open>board[toRow]\<close> before the right-hand side; either read
  can only throw a \<^verbatim>\<open>TypeError\<close>, with nothing assigned yet, so the order does not
  show in the result.
\<close>

definition apply_move :: "game_state \<Rightarrow> coordinate \<Rightarrow> coordinate \<Rightarrow> game_state \<times> js_error option" where
  "apply_move s from to =
     (case from of (fromRow, fromCol) \<Rightarrow>
      case to of (toRow, toCol) \<Rightarrow>
      case read_cell (board s) fromRow fromCol of
        Inl e \<Rightarrow> (s, Some e)
      | Inr piece \<Rightarrow>
          (case assign_cell (board s) toRow toCol piece of
             Inl e \<Rightarrow> (s, Some e)
           | Inr b1 \<Rightarrow>
               (case assign_cell b1 fromRow fromCol (S ''.'') of
                  Inl e \<Rightarrow> (s\<lparr>board := b1\<rparr>, Some e)
                | Inr b2 \<Rightarrow>
                    (\<lparr>board = b2,
                      currentPlayer =
                        (if currentPlayer s = S ''white'' then S ''black'' else S ''white'')\<rparr>,
                     None))))"

text \<open>
  \<^verbatim>\<open>makeMove\<close>: the state afterwards and what was logged. Every error thrown inside
  the \<^verbatim>\<open>try\<close> ends in the \<^verbatim>\<open>catch\<close>, which logs its message; what was assigned before
  stays assigned.
\<close>

definition makeMove :: "game_state \<Rightarrow> jsstring \<Rightarrow> game_state \<times> logged list" where
  "makeMove s move =
     (case parseMove move of
        Inl e \<Rightarrow> (s, [log_error_message e])
      | Inr (from, to) \<Rightarrow>
          (case isValidMove s from to of
             Inl e \<Rightarrow> (s, [log_error_message e])
           | Inr ok \<Rightarrow>
               if \<not> ok then (s, [Log [(Red, str ''Invalid move!'')]])
               else (case apply_move s from to of
                  (s', Some e) \<Rightarrow> (s', [log_error_message e])
                | (s', None) \<Rightarrow>
                    (case displayBoard s' of
                       (shown, Some e) \<Rightarrow>
                         (s', Log [(Green, str ''Move successful!'')] # shown @ [log_error_message e])
                     | (shown, None) \<Rightarrow>
                         (s', Log [(Green, str ''Move successful!'')] # shown)))))"

section \<open>JSON\<close>

subsection \<open>JSON.stringify(state, null, 2)\<close>

text \<open>
  A string is quoted as ECMA-262 says: the two-character escapes, \<^verbatim>\<open>\u\<close> with four
  lower-case hexadecimal digits for the other control characters and for a surrogate
  without its partner, every other code unit as it is.
\<close>

definition hex_digit :: "nat \<Rightarrow> nat" where
  "hex_digit d = (if d < 10 then 48 + d else 87 + d)"

definition unicode_escape :: "nat \<Rightarrow> jsstring" where
  "unicode_escape c =
     [92, 117, hex_digit (c div 4096 mod 16), hex_digit (c div 256 mod 16),
      hex_digit (c div 16 mod 16), hex_digit (c mod 16)]"

definition is_lead :: "nat \<Rightarrow> bool" where
  "is_lead c = (55296 \<le> c \<and> c \<le> 56319)"

definition is_trail :: "nat \<Rightarrow> bool" where
  "is_trail c = (56320 \<le> c \<and> c \<le> 57343)"

definition quote_unit :: "nat \<Rightarrow> jsstring" where
  "quote_unit c =
     (if c = 8 then [92, 98] else if c = 9 then [92, 116]
      else if c = 10 then [92, 110] else if c = 12 then [92, 102]
      else if c = 13 then [92, 114] else if c = 34 then [92, 34]
      else if c = 92 then [92, 92]
      else if c < 32 \<or> is_lead c \<or> is_trail c then unicode_escape c
      else [c])"

fun quote_units :: "jsstring \<Rightarrow> jsstring" where
  "quote_units [] = []"
| "quote_units [c] = quote_unit c"
| "quote_units (c # d # cs) =
     (if is_lead c \<and> is_trail d then c # d # quote_units cs
      else quote_unit c @ quote_units (d # cs))"

definition quote :: "jsstring \<Rightarrow> jsstring" where
  "quote s = 34 # quote_units s @ [34]"

text \<open>
  The serialisation with an indentation of two spaces; \<open>ind\<close> is the indentation of the
  enclosing value. An \<^verbatim>\<open>undefined\<close> array element is written \<^verbatim>\<open>null\<close>, and a property
  whose value is \<^verbatim>\<open>undefined\<close> is left out. A number is written as its literal.
\<close>

definition gap :: jsstring where
  "gap = str ''  ''"

fun serialize :: "jsstring \<Rightarrow> jsval \<Rightarrow> jsstring"
  and serialize_elements :: "jsstring \<Rightarrow> jsval list \<Rightarrow> jsstring"
  and serialize_members :: "jsstring \<Rightarrow> (jsstring \<times> jsval) list \<Rightarrow> jsstring"
where
  "serialize ind JUndefined = str ''null''"
| "serialize ind JNull = str ''null''"
| "serialize ind (JBool b) = (if b then str ''true'' else str ''false'')"
| "serialize ind (JNum n) = n"
| "serialize ind (JStr s) = quote s"
| "serialize ind (JArr xs) =
     (if xs = [] then str ''[]''
      else 91 # 10 # (ind @ gap) @ serialize_elements (ind @ gap) xs @ 10 # ind @ [93])"
| "serialize ind (JObj kvs) =
     (if filter (\<lambda>kv. snd kv \<noteq> JUndefined) kvs = [] then str ''{}''
      else 123 # 10 # (ind @ gap) @ serialize_members (ind @ gap) kvs @ 10 # ind @ [125])"
| "serialize_elements ind [] = []"
| "serialize_elements ind [x] = serialize ind x"
| "serialize_elements ind (x # y # ys) =
     serialize ind x @ 44 # 10 # ind @ serialize_elements ind (y # ys)"
| "serialize_members ind [] = []"
| "serialize_members ind ((k, v) # kvs) =
     (if v = JUndefined then serialize_members ind kvs
      else quote k @ str '': '' @ serialize ind v @
        (if filter (\<lambda>kv. snd kv \<noteq> JUndefined) kvs = [] then []
         else 44 # 10 # ind @ serialize_members ind kvs))"

text \<open>\<^verbatim>\<open>saveGame\<close> calls it on an object, never on \<^verbatim>\<open>undefined\<close> itself.\<close>

definition JSON_stringify :: "jsval \<Rightarrow> jsstring" where
  "JSON_stringify v = serialize [] v"

subsection \<open>JSON.parse\<close>

text \<open>
  The text is first cut into tokens, then the tokens are parsed. White space is space, tab,
  line feed and carriage return. A run of letters, digits, signs and dots is one word,
  which must be \<^verbatim>\<open>true\<close>, \<^verbatim>\<open>false\<close>, \<^verbatim>\<open>null\<close> or a number of the JSON grammar:
  in a JSON text a literal or a number is always followed by white space, a comma, a
  closing bracket or the end. The limits of the engine (nesting depth, memory) are not
  modelled.
\<close>

datatype token =
    TLBrace | TRBrace | TLBracket | TRBracket | TColon | TComma
  | TString jsstring | TNumber jsstring | TTrue | TFalse | TNull

datatype lex_mode =
    Outside
  | InString jsstring
  | InEscape jsstring
  | InUnicode jsstring jsstring
  | InWord jsstring

definition is_ws :: "nat \<Rightarrow> bool" where
  "is_ws c = (c = 32 \<or> c = 9 \<or> c = 10 \<or> c = 13)"

definition is_digit :: "nat \<Rightarrow> bool" where
  "is_digit c = (48 \<le> c \<and> c \<le> 57)"

definition is_word_unit :: "nat \<Rightarrow> bool" where
  "is_word_unit c = (is_digit c \<or> (97 \<le> c \<and> c \<le> 122) \<or> (65 \<le> c \<and> c \<le> 90) \<or>
     c = 43 \<or> c = 45 \<or> c = 46)"

definition hex_value :: "nat \<Rightarrow> nat option" where
  "hex_value c =
     (if 48 \<le> c \<and> c \<le> 57 then Some (c - 48)
      else if 97 \<le> c \<and> c \<le> 102 then Some (c - 87)
      else if 65 \<le> c \<and> c \<le> 70 then Some (c - 55)
      else None)"

definition unescape :: "nat \<Rightarrow> nat option" where
  "unescape c =
     (if c = 34 then Some 34 else if c = 92 then Some 92 else if c = 47 then Some 47
      else if c = 98 then Some 8 else if c = 102 then Some 12 else if c = 110 then Some 10
      else if c = 114 then Some 13 else if c = 116 then Some 9 else None)"

text \<open>
  The number grammar: an optional minus, \<open>0\<close> or a numeral without leading zero, an
  optional fraction (a dot and digits), an optional exponent (\<open>e\<close> or \<open>E\<close>, an optional
  sign, digits).
\<close>

definition is_exponent :: "jsstring \<Rightarrow> bool" where
  "is_exponent w =
     (w = [] \<or>
      ((hd w = 101 \<or> hd w = 69) \<and>
       (let ds = (case tl w of [] \<Rightarrow> [] | c # cs \<Rightarrow> if c = 43 \<or> c = 45 then cs else c # cs)
        in ds \<noteq> [] \<and> list_all is_digit ds)))"

definition is_fraction_exponent :: "jsstring \<Rightarrow> bool" where
  "is_fraction_exponent w =
     (case w of
        [] \<Rightarrow> True
      | c # cs \<Rightarrow>
          if c = 46 then takeWhile is_digit cs \<noteq> [] \<and> is_exponent (dropWhile is_digit cs)
          else is_exponent w)"

definition is_number :: "jsstring \<Rightarrow> bool" where
  "is_number w =
     (let u = (case w of [] \<Rightarrow> [] | c # cs \<Rightarrow> if c = 45 then cs else w) in
      case u of
        [] \<Rightarrow> False
      | c # cs \<Rightarrow>
          if c = 48 then is_fraction_exponent cs
          else if is_digit c then is_fraction_exponent (dropWhile is_digit cs)
          else False)"

definition word_token :: "jsstring \<Rightarrow> token option" where
  "word_token w =
     (if w = str ''true'' then Some TTrue
      else if w = str ''false'' then Some TFalse
      else if w = str ''null'' then Some TNull
      else if is_number w then Some (TNumber w)
      else None)"

definition emit :: "token option \<Rightarrow> token list option \<Rightarrow> token list option" where
  "emit t ts = (case t of None \<Rightarrow> None | Some x \<Rightarrow> map_option (Cons x) ts)"

function (sequential) lex :: "lex_mode \<Rightarrow> jsstring \<Rightarrow> token list option" where
  "lex Outside [] = Some []"
| "lex Outside (c # cs) =
     (if is_ws c then lex Outside cs
      else if c = 123 then emit (Some TLBrace) (lex Outside cs)
      else if c = 125 then emit (Some TRBrace) (lex Outside cs)
      else if c = 91 then emit (Some TLBracket) (lex Outside cs)
      else if c = 93 then emit (Some TRBracket) (lex Outside cs)
      else if c = 58 then emit (Some TColon) (lex Outside cs)
      else if c = 44 then emit (Some TComma) (lex Outside cs)
      else if c = 34 then lex (InString []) cs
      else if is_word_unit c then lex (InWord [c]) cs
      else None)"
| "lex (InString s) [] = None"
| "lex (InString s) (c # cs) =
     (if c = 34 then emit (Some (TString s)) (lex Outside cs)
      else if c = 92 then lex (InEscape s) cs
      else if c < 32 then None
      else lex (InString (s @ [c])) cs)"
| "lex (InEscape s) [] = None"
| "lex (InEscape s) (c # cs) =
     (if c = 117 then lex (InUnicode s []) cs
      else (case unescape c of None \<Rightarrow> None | Some d \<Rightarrow> lex (InString (s @ [d])) cs))"
| "lex (InUnicode s ds) [] = None"
| "lex (InUnicode s ds) (c # cs) =
     (case hex_value c of
        None \<Rightarrow> None
      | Some d \<Rightarrow>
          if length ds = 3 then lex (InString (s @ [foldl (\<lambda>a x. 16 * a + x) 0 (ds @ [d])])) cs
          else lex (InUnicode s (ds @ [d])) cs)"
| "lex (InWord w) [] = emit (word_token w) (Some [])"
| "lex (InWord w) (c # cs) =
     (if is_word_unit c then lex (InWord (w @ [c])) cs
      else emit (word_token w) (lex Outside (c # cs)))"
  by pat_completeness auto
termination
  by (relation "measure (\<lambda>(m, cs). 2 * length cs + (case m of InWord w \<Rightarrow> 1 | _ \<Rightarrow> 0))") auto

text \<open>
  The parser descends with fuel, one unit for each call. \<open>JSON_parse\<close> gives it more than
  twice the number of tokens, which is always enough (\<open>parse_value_fuel\<close> below): the
  result \<open>None\<close> is a \<^verbatim>\<open>SyntaxError\<close>. An object is built by defining its properties in
  the order of the text, a repeated key keeping its first place and its last value.
\<close>

fun parse_value :: "nat \<Rightarrow> token list \<Rightarrow> (jsval \<times> token list) option"
  and parse_elements :: "nat \<Rightarrow> jsval list \<Rightarrow> token list \<Rightarrow> (jsval \<times> token list) option"
  and parse_members :: "nat \<Rightarrow> (jsstring \<times> jsval) list \<Rightarrow> token list \<Rightarrow> (jsval \<times> token list) option"
where
  "parse_value 0 ts = None"
| "parse_value (Suc n) [] = None"
| "parse_value (Suc n) (t # ts) =
     (case t of
        TString s \<Rightarrow> Some (JStr s, ts)
      | TNumber w \<Rightarrow> Some (JNum w, ts)
      | TTrue \<Rightarrow> Some (JBool True, ts)
      | TFalse \<Rightarrow> Some (JBool False, ts)
      | TNull \<Rightarrow> Some (JNull, ts)
      | TLBracket \<Rightarrow>
          (case ts of TRBracket # r \<Rightarrow> Some (JArr [], r) | _ \<Rightarrow> parse_elements n [] ts)
      | TLBrace \<Rightarrow>
          (case ts of TRBrace # r \<Rightarrow> Some (JObj [], r) | _ \<Rightarrow> parse_members n [] ts)
      | _ \<Rightarrow> None)"
| "parse_elements 0 acc ts = None"
| "parse_elements (Suc n) acc ts =
     (case parse_value n ts of
        Some (v, TComma # r) \<Rightarrow> parse_elements n (acc @ [v]) r
      | Some (v, TRBracket # r) \<Rightarrow> Some (JArr (acc @ [v]), r)
      | _ \<Rightarrow> None)"
| "parse_members 0 acc ts = None"
| "parse_members (Suc n) acc ts =
     (case ts of
        TString k # TColon # r \<Rightarrow>
          (case parse_value n r of
             Some (v, TComma # r') \<Rightarrow> parse_members n (obj_put acc k v) r'
           | Some (v, TRBrace # r') \<Rightarrow> Some (JObj (obj_put acc k v), r')
           | _ \<Rightarrow> None)
      | _ \<Rightarrow> None)"

definition JSON_parse :: "jsstring \<Rightarrow> jsval option" where
  "JSON_parse text =
     (case lex Outside text of
        None \<Rightarrow> None
      | Some ts \<Rightarrow>
          (case parse_value (2 * length ts + 1) ts of
             Some (v, []) \<Rightarrow> Some v
           | _ \<Rightarrow> None))"

section \<open>saveGame and loadGame\<close>

text \<open>
  The file system, as far as the program sees it: the text of the file at
  \<^verbatim>\<open>GAME_STATE_FILE\<close> as \<^verbatim>\<open>fs.readFile(..., 'utf8')\<close> returns it, \<open>None\<close> when the read
  fails (no such file, no permission), and whether \<^verbatim>\<open>fs.writeFile\<close> succeeds on it.
  The path is computed once, when the module is loaded, from \<^verbatim>\<open>HOME\<close> or
  \<^verbatim>\<open>USERPROFILE\<close>; one of the two is taken to be set.
\<close>

record filesystem =
  file_text :: "jsstring option"
  writable :: bool

text \<open>
  \<^verbatim>\<open>saveGame\<close>: the file system afterwards, what was logged, and the error the returned
  promise is rejected with, if the write failed.
\<close>

definition saveGame :: "filesystem \<Rightarrow> game_state \<Rightarrow> filesystem \<times> logged list \<times> js_error option" where
  "saveGame fs s =
     (let state = JObj [(str ''board'', board s), (str ''currentPlayer'', currentPlayer s)] in
      if writable fs
      then (fs\<lparr>file_text := Some (JSON_stringify state)\<rparr>,
            [Log [(Green, str ''Game saved successfully!'')]], None)
      else (fs, [], Some IOError))"

text \<open>
  \<^verbatim>\<open>loadGame\<close>: the state afterwards and what was logged. Whatever is thrown inside
  the \<^verbatim>\<open>try\<close> (by the read, by \<^verbatim>\<open>JSON.parse\<close>, by reading a property of \<^verbatim>\<open>null\<close>)
  ends in the \<^verbatim>\<open>catch\<close>, which logs one line and throws nothing.
\<close>

definition loadGame :: "filesystem \<Rightarrow> game_state \<Rightarrow> game_state \<times> logged list" where
  "loadGame fs s =
     (case file_text fs of
        None \<Rightarrow> (s, [Log [(Yellow, str ''No saved game found. Starting new game.'')]])
      | Some data \<Rightarrow>
          (case JSON_parse data of
             None \<Rightarrow> (s, [Log [(Yellow, str ''No saved game found. Starting new game.'')]])
           | Some state \<Rightarrow>
               (case js_member state (str ''board'') of
                  Inl e \<Rightarrow> (s, [Log [(Yellow, str ''No saved game found. Starting new game.'')]])
                | Inr b \<Rightarrow>
                    (case js_member state (str ''currentPlayer'') of
                       Inl e \<Rightarrow>
                         (s\<lparr>board := b\<rparr>,
                          [Log [(Yellow, str ''No saved game found. Starting new game.'')]])
                     | Inr p \<Rightarrow>
                         (\<lparr>board = b, currentPlayer = p\<rparr>,
                          [Log [(Green, str ''Game loaded successfully!'')]])))))"

section \<open>The commands\<close>

text \<open>
  One run of the script executes one command, on the state the module starts with:
  the file system and the state at the end, what was logged, and the error that escaped,
  if one did. The run without a command, which prints the help text of \<^verbatim>\<open>commander\<close>,
  is left out.
\<close>

datatype command = Move jsstring | Board | Save | Load

fun run :: "filesystem \<Rightarrow> command \<Rightarrow> filesystem \<times> game_state \<times> logged list \<times> js_error option" where
  "run fs (Move notation) =
     (case makeMove initial_state notation of (s, out) \<Rightarrow> (fs, s, out, None))"
| "run fs Board =
     (case displayBoard initial_state of (out, err) \<Rightarrow> (fs, initial_state, out, err))"
| "run fs Save =
     (case saveGame fs initial_state of (fs', out, err) \<Rightarrow> (fs', initial_state, out, err))"
| "run fs Load =
     (case loadGame fs initial_state of
        (s, out) \<Rightarrow>
          (case displayBoard s of (shown, err) \<Rightarrow> (fs, s, out @ shown, err)))"

section \<open>The data model of the specification\<close>

text \<open>
  A piece is a one-character tag, upper case for white and lower case for black, or the
  empty marker \<^verbatim>\<open>.\<close>; a board is a grid of eight rows of eight pieces, row 0 being
  rank 8; the side to move is white or black.
\<close>

datatype side = WhiteSide | BlackSide

datatype kind = Rook | Knight | Bishop | Queen | King | Pawn

fun tag :: "side \<Rightarrow> kind \<Rightarrow> jsstring" where
  "tag WhiteSide Rook = str ''R''"
| "tag WhiteSide Knight = str ''N''"
| "tag WhiteSide Bishop = str ''B''"
| "tag WhiteSide Queen = str ''Q''"
| "tag WhiteSide King = str ''K''"
| "tag WhiteSide Pawn = str ''P''"
| "tag BlackSide Rook = str ''r''"
| "tag BlackSide Knight = str ''n''"
| "tag BlackSide Bishop = str ''b''"
| "tag BlackSide Queen = str ''q''"
| "tag BlackSide King = str ''k''"
| "tag BlackSide Pawn = str ''p''"

definition empty_cell :: jsstring where
  "empty_cell = str ''.''"

definition is_piece_tag :: "jsstring \<Rightarrow> bool" where
  "is_piece_tag t =
     (t = empty_cell \<or>
      t \<in> set (map (tag WhiteSide) [Rook, Knight, Bishop, Queen, King, Pawn]) \<or>
      t \<in> set (map (tag BlackSide) [Rook, Knight, Bishop, Queen, King, Pawn]))"

type_synonym grid = "jsstring list list"

definition wf_grid :: "grid \<Rightarrow> bool" where
  "wf_grid g = (length g = 8 \<and> list_all (\<lambda>row. length row = 8 \<and> list_all is_piece_tag row) g)"

definition board_of :: "grid \<Rightarrow> jsval" where
  "board_of g = JArr (map (\<lambda>row. JArr (map JStr row)) g)"

fun player_of :: "side \<Rightarrow> jsval" where
  "player_of WhiteSide = S ''white''"
| "player_of BlackSide = S ''black''"

fun opposite :: "side \<Rightarrow> side" where
  "opposite WhiteSide = BlackSide"
| "opposite BlackSide = WhiteSide"

definition state_of :: "grid \<Rightarrow> side \<Rightarrow> game_state" where
  "state_of g turn = \<lparr>board = board_of g, currentPlayer = player_of turn\<rparr>"

text \<open>The board invariant, on the value the variable \<^verbatim>\<open>board\<close> holds.\<close>

fun is_tag_cell :: "jsval \<Rightarrow> bool" where
  "is_tag_cell (JStr t) = is_piece_tag t"
| "is_tag_cell v = False"

fun is_board_row :: "jsval \<Rightarrow> bool" where
  "is_board_row (JArr cells) = (length cells = 8 \<and> list_all is_tag_cell cells)"
| "is_board_row v = False"

fun valid_board :: "jsval \<Rightarrow> bool" where
  "valid_board (JArr rows) = (length rows = 8 \<and> list_all is_board_row rows)"
| "valid_board v = False"

text \<open>The canonical starting position, as the specification describes it.\<close>

definition back_rank :: "kind list" where
  "back_rank = [Rook, Knight, Bishop, Queen, King, Bishop, Knight, Rook]"

definition standard_position :: grid where
  "standard_position =
     [map (tag BlackSide) back_rank, replicate 8 (tag BlackSide Pawn),
      replicate 8 empty_cell, replicate 8 empty_cell,
      replicate 8 empty_cell, replicate 8 empty_cell,
      replicate 8 (tag WhiteSide Pawn), map (tag WhiteSide) back_rank]"

text \<open>
  The validator as the specification words it, on the tag of the source cell, the tag of
  the destination cell and the side to move.
\<close>

definition tag_colour :: "jsstring \<Rightarrow> side" where
  "tag_colour t =
     (if t \<in> set (map (tag WhiteSide) [Rook, Knight, Bishop, Queen, King, Pawn])
      then WhiteSide else BlackSide)"

definition validator_spec :: "jsstring \<Rightarrow> jsstring \<Rightarrow> side \<Rightarrow> bool" where
  "validator_spec src dst turn =
     (if src = empty_cell then False
      else if tag_colour src \<noteq> turn then False
      else if dst = empty_cell then True
      else tag_colour dst \<noteq> tag_colour src)"

text \<open>Whether reading \<^verbatim>\<open>board[r][c]\<close> stays inside the arrays.\<close>

fun in_grid :: "jsval \<Rightarrow> coordinate \<Rightarrow> bool" where
  "in_grid (JArr rows) (r, c) =
     (r < length rows \<and> (case rows ! r of JArr cells \<Rightarrow> c < length cells | _ \<Rightarrow> False))"
| "in_grid b rc = False"

text \<open>The grid of tags that a board value holds.\<close>

fun tag_of :: "jsval \<Rightarrow> jsstring" where
  "tag_of (JStr t) = t"
| "tag_of v = []"

fun cells_of :: "jsval \<Rightarrow> jsstring list" where
  "cells_of (JArr cells) = map tag_of cells"
| "cells_of v = []"

fun grid_of :: "jsval \<Rightarrow> grid" where
  "grid_of (JArr rows) = map cells_of rows"
| "grid_of v = []"

section \<open>Values that are written without escapes\<close>

text \<open>
  The values for which \<^verbatim>\<open>JSON.stringify\<close> followed by \<^verbatim>\<open>JSON.parse\<close> is shown to give
  the value back: strings of code units from \<open>0x20\<close> on other than the quote, the
  backslash and the surrogates, arrays of such values, and objects of such values whose
  keys are such strings, differ from each other and are no array indices. \<open>tokens\<close> is
  the token sequence of the text written for such a value.
\<close>

definition plain_unit :: "nat \<Rightarrow> bool" where
  "plain_unit c = (32 \<le> c \<and> c \<noteq> 34 \<and> c \<noteq> 92 \<and> \<not> is_lead c \<and> \<not> is_trail c)"

fun plain :: "jsval \<Rightarrow> bool"
  and plain_elements :: "jsval list \<Rightarrow> bool"
  and plain_members :: "(jsstring \<times> jsval) list \<Rightarrow> bool"
where
  "plain (JStr s) = list_all plain_unit s"
| "plain (JArr xs) = plain_elements xs"
| "plain (JObj kvs) = plain_members kvs"
| "plain v = False"
| "plain_elements [] = True"
| "plain_elements (x # xs) = (plain x \<and> plain_elements xs)"
| "plain_members [] = True"
| "plain_members ((k, v) # kvs) =
     (list_all plain_unit k \<and> \<not> is_index_key k \<and> k \<notin> fst ` set kvs \<and> plain v \<and>
      plain_members kvs)"

fun tokens :: "jsval \<Rightarrow> token list"
  and tokens_elements :: "jsval list \<Rightarrow> token list"
  and tokens_members :: "(jsstring \<times> jsval) list \<Rightarrow> token list"
where
  "tokens (JStr s) = [TString s]"
| "tokens (JArr xs) = TLBracket # tokens_elements xs @ [TRBracket]"
| "tokens (JObj kvs) = TLBrace # tokens_members kvs @ [TRBrace]"
| "tokens v = []"
| "tokens_elements [] = []"
| "tokens_elements [x] = tokens x"
| "tokens_elements (x # y # ys) = tokens x @ TComma # tokens_elements (y # ys)"
| "tokens_members [] = []"
| "tokens_members [(k, v)] = TString k # TColon # tokens v"
| "tokens_members ((k, v) # kv # kvs) =
     TString k # TColon # tokens v @ TComma # tokens_members (kv # kvs)"

section \<open>Boards and grids\<close>

subsection \<open>The validator on a grid\<close>

lemma read_cell_board_of:
  "r < length g \<Longrightarrow> c < length (g ! r) \<Longrightarrow> read_cell (board_of g) r c = Inr (JStr (g ! r ! c))"
  by (simp add: read_cell_def board_of_def)

lemma wf_grid_row: "wf_grid g \<Longrightarrow> r < 8 \<Longrightarrow> length (g ! r) = 8"
  by (simp add: wf_grid_def list_all_length)

lemma wf_grid_tag: "wf_grid g \<Longrightarrow> r < 8 \<Longrightarrow> c < 8 \<Longrightarrow> is_piece_tag (g ! r ! c)"
  by (simp add: wf_grid_def list_all_length)

lemma read_cell_wf:
  "wf_grid g \<Longrightarrow> r < 8 \<Longrightarrow> c < 8 \<Longrightarrow> read_cell (board_of g) r c = Inr (JStr (g ! r ! c))"
  by (rule read_cell_board_of) (simp_all add: wf_grid_def list_all_length)

lemma upper_tag:
  "is_piece_tag t \<Longrightarrow> t \<noteq> empty_cell \<Longrightarrow> (map upper_unit t = t) = (tag_colour t = WhiteSide)"
  by (auto simp: is_piece_tag_def tag_colour_def upper_unit_def empty_cell_def)

lemma isValidMove_grid:
  assumes "wf_grid g" "fr < 8" "fc < 8" "tr < 8" "tc < 8"
  shows "isValidMove (state_of g turn) (fr, fc) (tr, tc) =
           Inr (validator_spec (g ! fr ! fc) (g ! tr ! tc) turn)"
proof -
  have src: "read_cell (board_of g) fr fc = Inr (JStr (g ! fr ! fc))"
    using assms by (simp add: read_cell_wf)
  have dst: "read_cell (board_of g) tr tc = Inr (JStr (g ! tr ! tc))"
    using assms by (simp add: read_cell_wf)
  have ts: "is_piece_tag (g ! fr ! fc)" and td: "is_piece_tag (g ! tr ! tc)"
    using assms by (simp_all add: wf_grid_tag)
  show ?thesis
  proof (cases "g ! fr ! fc = empty_cell")
    case True
    then show ?thesis
      by (simp add: isValidMove_def state_of_def src validator_spec_def empty_cell_def)
  next
    case False
    note ne = this
    have us: "(map upper_unit (g ! fr ! fc) = g ! fr ! fc) = (tag_colour (g ! fr ! fc) = WhiteSide)"
      using ts ne by (rule upper_tag)
    show ?thesis
    proof (cases "g ! tr ! tc = empty_cell")
      case True
      then show ?thesis using ne us
        by (cases turn; cases "tag_colour (g ! fr ! fc)")
           (simp_all add: isValidMove_def state_of_def src dst validator_spec_def empty_cell_def)
    next
      case False
      have ud: "(map upper_unit (g ! tr ! tc) = g ! tr ! tc) = (tag_colour (g ! tr ! tc) = WhiteSide)"
        using td False by (rule upper_tag)
      show ?thesis using ne False us ud
        by (cases turn; cases "tag_colour (g ! fr ! fc)"; cases "tag_colour (g ! tr ! tc)")
           (simp_all add: isValidMove_def state_of_def src dst validator_spec_def empty_cell_def)
    qed
  qed
qed

lemma makeMove_invalid:
  "parseMove m = Inr (from, to) \<Longrightarrow> isValidMove s from to = Inr False \<Longrightarrow>
   makeMove s m = (s, [Log [(Red, str ''Invalid move!'')]])"
  by (simp add: makeMove_def)

lemma isValidMove_self: "isValidMove s c c \<noteq> Inr True"
  by (cases c) (auto simp: isValidMove_def Let_def split: sum.splits if_splits)

lemma makeMove_self: "parseMove m = Inr (c, c) \<Longrightarrow> fst (makeMove s m) = s"
  using isValidMove_self [of s c]
  by (auto simp: makeMove_def split: sum.splits)

lemma validator_spec_self: "validator_spec t t turn = False"
  by (simp add: validator_spec_def)

subsection \<open>The pattern of a move\<close>

lemma matches_move_iff:
  "matches_move m \<longleftrightarrow>
     (\<exists>f1 r1 f2 r2. m = [f1, r1, f2, r2] \<and> is_file f1 \<and> is_rank r1 \<and> is_file f2 \<and> is_rank r2)"
  by (auto simp: matches_move_def eval_nat_numeral length_Suc_conv)

lemma is_file_iff: "is_file c \<longleftrightarrow> c \<in> set (str ''abcdefgh'')"
  unfolding is_file_def by (simp; arith)

lemma is_rank_iff: "is_rank c \<longleftrightarrow> c \<in> set (str ''12345678'')"
  unfolding is_rank_def by (simp; arith)

lemma parseMove_Inr_iff: "(\<exists>mv. parseMove m = Inr mv) \<longleftrightarrow> matches_move m"
  by (simp add: parseMove_def Let_def)

lemma parseMove_coords:
  assumes "parseMove m = Inr ((fr, fc), (tr, tc))"
  shows "int fr = 8 - (int (m ! 1) - 48) \<and> int fc = int (m ! 0) - 97 \<and>
         int tr = 8 - (int (m ! 3) - 48) \<and> int tc = int (m ! 2) - 97 \<and>
         fr < 8 \<and> fc < 8 \<and> tr < 8 \<and> tc < 8"
proof -
  have mm: "matches_move m" using assms parseMove_Inr_iff by blast
  then have b: "97 \<le> m ! 0" "m ! 0 \<le> 104" "49 \<le> m ! 1" "m ! 1 \<le> 56"
     "97 \<le> m ! 2" "m ! 2 \<le> 104" "49 \<le> m ! 3" "m ! 3 \<le> 56"
    by (simp_all add: matches_move_def is_file_def is_rank_def)
  have eq: "fr = 8 - (m ! 1 - 48)" "fc = m ! 0 - 97" "tr = 8 - (m ! 3 - 48)" "tc = m ! 2 - 97"
    using assms mm by (simp_all add: parseMove_def Let_def parseInt_digit_def)
  show ?thesis using b eq by auto
qed

lemma parseMove_fail:
  "\<not> matches_move m \<Longrightarrow> parseMove m =
     Inl (Error (str ''Invalid move format. Use algebraic notation (e.g., '' @ str ''e2e4'' @ str '').''))"
  by (simp add: parseMove_def)

lemma parseMove_examples:
  "parseMove (str ''e2e4'') = Inr ((6, 4), (4, 4))"
  "parseMove (str ''a1h8'') = Inr ((7, 0), (0, 7))"
  "\<not> matches_move (str ''i9i9'')" "\<not> matches_move (str ''e2e9'')"
  by (simp_all add: parseMove_def matches_move_def is_file_def is_rank_def parseInt_digit_def)

subsection \<open>Moving a piece on a grid\<close>

lemma initial_state_grid:
  "initial_state = state_of standard_position WhiteSide"
  by (simp add: initial_state_def state_of_def standard_position_def back_rank_def board_of_def
      initial_board_def empty_cell_def eval_nat_numeral)

lemma wf_standard: "wf_grid standard_position"
  by (simp add: wf_grid_def standard_position_def back_rank_def is_piece_tag_def empty_cell_def
      list_all_iff)

lemma assign_cell_board_of:
  "r < length g \<Longrightarrow> c < length (g ! r) \<Longrightarrow>
   assign_cell (board_of g) r c (JStr x) = Inr (board_of (g[r := (g ! r)[c := x]]))"
  by (simp add: assign_cell_def board_of_def map_update)

lemma wf_grid_update:
  "wf_grid g \<Longrightarrow> r < 8 \<Longrightarrow> c < 8 \<Longrightarrow> is_piece_tag x \<Longrightarrow> wf_grid (g[r := (g ! r)[c := x]])"
  by (simp add: wf_grid_def list_all_length nth_list_update)

lemma apply_move_wf:
  assumes "wf_grid g" "fr < 8" "fc < 8" "tr < 8" "tc < 8"
  shows "apply_move (state_of g turn) (fr, fc) (tr, tc) =
     (state_of ((g[tr := (g ! tr)[tc := g ! fr ! fc]])
                 [fr := ((g[tr := (g ! tr)[tc := g ! fr ! fc]]) ! fr)[fc := empty_cell]])
        (opposite turn), None)"
proof -
  let ?g1 = "g[tr := (g ! tr)[tc := g ! fr ! fc]]"
  have w1: "wf_grid ?g1" using assms by (simp add: wf_grid_update wf_grid_tag)
  have l: "length g = 8" "length (g ! tr) = 8" "length ?g1 = 8" "length (?g1 ! fr) = 8"
    using assms w1 by (simp_all add: wf_grid_row wf_grid_def del: length_list_update)
  have a1: "assign_cell (board_of g) tr tc (JStr (g ! fr ! fc)) = Inr (board_of ?g1)"
    using assms l by (simp add: assign_cell_board_of)
  have a2: "assign_cell (board_of ?g1) fr fc (JStr empty_cell) =
      Inr (board_of (?g1[fr := (?g1 ! fr)[fc := empty_cell]]))"
    using assms l by (intro assign_cell_board_of) simp_all
  show ?thesis
    using a1 a2 assms
    by (cases turn) (simp_all add: apply_move_def state_of_def read_cell_wf empty_cell_def)
qed

lemma render_cell_wf:
  assumes "wf_grid g" "i < 8" "j < 8"
  shows "render_cell (state_of g turn) i j =
     Inr [(if g ! i ! j = empty_cell then Gray
           else if tag_colour (g ! i ! j) = WhiteSide then White else Black, g ! i ! j),
          (NoChalk, str '' '')]"
proof -
  have t: "is_piece_tag (g ! i ! j)" using assms by (simp add: wf_grid_tag)
  show ?thesis
  proof (cases "g ! i ! j = empty_cell")
    case True
    then show ?thesis using assms
      by (simp add: render_cell_def state_of_def read_cell_wf empty_cell_def)
  next
    case False
    then show ?thesis using assms upper_tag [OF t False]
      by (simp add: render_cell_def state_of_def read_cell_wf empty_cell_def)
  qed
qed

lemma render_cells_wf:
  assumes "wf_grid g" "i < 8"
  shows "\<exists>cells. render_cells (state_of g turn) i [0, 1, 2, 3, 4, 5, 6, 7] = Inr cells"
  using assms by (simp add: render_cell_wf)

lemma display_rows_wf:
  assumes "wf_grid g" "list_all (\<lambda>i. i < 8) is"
  shows "snd (display_rows (state_of g turn) is) = None"
  using assms(2)
proof (induction "is")
  case Nil
  then show ?case by simp
next
  case (Cons i "is")
  then have i: "i < 8" by simp
  obtain cells where c: "render_cells (state_of g turn) i [0, 1, 2, 3, 4, 5, 6, 7] = Inr cells"
    using render_cells_wf [OF assms(1) i] by blast
  show ?case using Cons c by (simp add: split_beta)
qed

lemma displayBoard_wf:
  assumes "wf_grid g"
  shows "snd (displayBoard (state_of g turn)) = None"
proof -
  have "snd (display_rows (state_of g turn) [0, 1, 2, 3, 4, 5, 6, 7]) = None"
    by (rule display_rows_wf [OF assms]) simp
  then show ?thesis
    by (cases "display_rows (state_of g turn) [0, 1, 2, 3, 4, 5, 6, 7]") (simp add: displayBoard_def)
qed

lemma validator_spec_True:
  "validator_spec a b turn \<Longrightarrow> a \<noteq> empty_cell \<and> a \<noteq> b"
  by (auto simp: validator_spec_def split: if_splits)

lemma makeMove_grid:
  assumes "wf_grid g" "parseMove m = Inr ((fr, fc), (tr, tc))"
    "isValidMove (state_of g turn) (fr, fc) (tr, tc) = Inr True"
  shows "\<exists>g'. makeMove (state_of g turn) m =
           (state_of g' (opposite turn),
            Log [(Green, str ''Move successful!'')] # fst (displayBoard (state_of g' (opposite turn)))) \<and>
         snd (displayBoard (state_of g' (opposite turn))) = None \<and>
         wf_grid g' \<and>
         g' ! tr ! tc = g ! fr ! fc \<and>
         g' ! fr ! fc = empty_cell \<and>
         (\<forall>r c. r < 8 \<longrightarrow> c < 8 \<longrightarrow> (r, c) \<noteq> (fr, fc) \<longrightarrow> (r, c) \<noteq> (tr, tc) \<longrightarrow>
            g' ! r ! c = g ! r ! c)"
proof -
  let ?g1 = "g[tr := (g ! tr)[tc := g ! fr ! fc]]"
  let ?g2 = "?g1[fr := (?g1 ! fr)[fc := empty_cell]]"
  have r: "fr < 8" "fc < 8" "tr < 8" "tc < 8"
    using parseMove_coords [OF assms(2)] by simp_all
  have v: "validator_spec (g ! fr ! fc) (g ! tr ! tc) turn"
    using assms(3) isValidMove_grid [OF assms(1) r, of turn] by simp
  have ne: "(fr, fc) \<noteq> (tr, tc)"
    using validator_spec_True [OF v] by auto
  have w1: "wf_grid ?g1" using assms r by (simp add: wf_grid_update wf_grid_tag)
  have e: "is_piece_tag empty_cell" by (simp add: is_piece_tag_def)
  have w2: "wf_grid ?g2" using w1 r e by (simp add: wf_grid_update)
  have l: "length g = 8" "\<And>i. i < 8 \<Longrightarrow> length (g ! i) = 8"
    using assms(1) by (simp_all add: wf_grid_def list_all_length)
  have ap: "apply_move (state_of g turn) (fr, fc) (tr, tc) = (state_of ?g2 (opposite turn), None)"
    using apply_move_wf [OF assms(1) r] by simp
  have d: "snd (displayBoard (state_of ?g2 (opposite turn))) = None"
    using w2 by (rule displayBoard_wf)
  have mk: "makeMove (state_of g turn) m =
      (state_of ?g2 (opposite turn),
       Log [(Green, str ''Move successful!'')] # fst (displayBoard (state_of ?g2 (opposite turn))))"
    using assms(2,3) ap d
    by (cases "displayBoard (state_of ?g2 (opposite turn))") (simp add: makeMove_def)
  have c1: "?g2 ! tr ! tc = g ! fr ! fc"
    using r l ne by (auto simp: nth_list_update)
  have c2: "?g2 ! fr ! fc = empty_cell"
    using r l by (auto simp: nth_list_update)
  have c3: "\<forall>r c. r < 8 \<longrightarrow> c < 8 \<longrightarrow> (r, c) \<noteq> (fr, fc) \<longrightarrow> (r, c) \<noteq> (tr, tc) \<longrightarrow>
            ?g2 ! r ! c = g ! r ! c"
    using r l by (auto simp: nth_list_update)
  show ?thesis
    using mk d w2 c1 c2 c3 by blast
qed

subsection \<open>A valid board is the board of a grid\<close>

lemma is_tag_cell_tag_of: "is_tag_cell v \<Longrightarrow> JStr (tag_of v) = v \<and> is_piece_tag (tag_of v)"
  by (cases v) simp_all

lemma is_board_row_cells_of:
  "is_board_row v \<Longrightarrow>
     JArr (map JStr (cells_of v)) = v \<and> length (cells_of v) = 8 \<and> list_all is_piece_tag (cells_of v)"
  by (cases v) (simp_all add: list_all_iff is_tag_cell_tag_of map_idI)

lemma is_board_row_tags: "is_board_row v \<Longrightarrow> x \<in> set (cells_of v) \<Longrightarrow> is_piece_tag x"
  using is_board_row_cells_of [of v] by (simp add: list_all_iff)

lemma valid_board_grid: "valid_board b \<Longrightarrow> wf_grid (grid_of b) \<and> board_of (grid_of b) = b"
proof (cases b)
  case (JArr rows)
  assume "valid_board b"
  then have l: "length rows = 8" and r: "\<And>row. row \<in> set rows \<Longrightarrow> is_board_row row"
    using JArr by (simp_all add: list_all_iff)
  have "list_all (\<lambda>row. length row = 8 \<and> list_all is_piece_tag row) (map cells_of rows)"
    using r by (auto simp: list_all_iff is_board_row_cells_of intro: is_board_row_tags)
  moreover have "map (\<lambda>row. JArr (map JStr row)) (map cells_of rows) = rows"
    using r by (simp add: is_board_row_cells_of map_idI)
  ultimately show ?thesis
    using JArr l by (simp add: wf_grid_def board_of_def)
qed simp_all

lemma valid_board_of: "wf_grid g \<Longrightarrow> valid_board (board_of g)"
  by (simp add: wf_grid_def board_of_def list_all_iff)

lemma in_grid_board_of: "wf_grid g \<Longrightarrow> r < 8 \<Longrightarrow> c < 8 \<Longrightarrow> in_grid (board_of g) (r, c)"
  by (simp add: board_of_def wf_grid_def list_all_length)

lemma isValidMove_defined:
  assumes "wf_grid g" "fr < 8" "fc < 8" "tr < 8" "tc < 8"
  shows "\<exists>ok. isValidMove \<lparr>board = board_of g, currentPlayer = p\<rparr> (fr, fc) (tr, tc) = Inr ok"
  using assms by (auto simp: isValidMove_def read_cell_wf Let_def)

lemma apply_move_grid:
  assumes "wf_grid g" "fr < 8" "fc < 8" "tr < 8" "tc < 8"
  shows "\<exists>g' p'. wf_grid g' \<and>
     apply_move \<lparr>board = board_of g, currentPlayer = p\<rparr> (fr, fc) (tr, tc) =
       (\<lparr>board = board_of g', currentPlayer = p'\<rparr>, None)"
proof -
  let ?g1 = "g[tr := (g ! tr)[tc := g ! fr ! fc]]"
  let ?g2 = "?g1[fr := (?g1 ! fr)[fc := empty_cell]]"
  have w1: "wf_grid ?g1" using assms by (simp add: wf_grid_update wf_grid_tag)
  have e: "is_piece_tag empty_cell" by (simp add: is_piece_tag_def)
  have w2: "wf_grid ?g2" using w1 assms e by (simp add: wf_grid_update)
  have l: "length g = 8" "length (g ! tr) = 8" "length ?g1 = 8" "length (?g1 ! fr) = 8"
    using assms w1 by (simp_all add: wf_grid_row wf_grid_def del: length_list_update)
  have a1: "assign_cell (board_of g) tr tc (JStr (g ! fr ! fc)) = Inr (board_of ?g1)"
    using assms l by (simp add: assign_cell_board_of)
  have a2: "assign_cell (board_of ?g1) fr fc (JStr empty_cell) = Inr (board_of ?g2)"
    using assms l by (intro assign_cell_board_of) simp_all
  have "apply_move \<lparr>board = board_of g, currentPlayer = p\<rparr> (fr, fc) (tr, tc) =
       (\<lparr>board = board_of ?g2,
         currentPlayer = (if p = S ''white'' then S ''black'' else S ''white'')\<rparr>, None)"
    using a1 a2 assms by (simp add: apply_move_def read_cell_wf empty_cell_def)
  then show ?thesis using w2 by blast
qed

lemma apply_move_defined:
  assumes "wf_grid g" "fr < 8" "fc < 8" "tr < 8" "tc < 8"
  shows "\<exists>s'. apply_move \<lparr>board = board_of g, currentPlayer = p\<rparr> (fr, fc) (tr, tc) = (s', None)"
  using apply_move_grid [OF assms, of p] by blast

lemma makeMove_valid_board:
  assumes "valid_board (board s)"
  shows "valid_board (board (fst (makeMove s m)))"
proof (cases "parseMove m")
  case (Inl e)
  then show ?thesis using assms by (simp add: makeMove_def)
next
  case (Inr mv)
  obtain fr fc tr tc where mv: "mv = ((fr, fc), (tr, tc))" by (metis surj_pair)
  have r: "fr < 8" "fc < 8" "tr < 8" "tc < 8"
    using parseMove_coords [of m fr fc tr tc] Inr mv by simp_all
  have w: "wf_grid (grid_of (board s))" and b: "board_of (grid_of (board s)) = board s"
    using assms by (simp_all add: valid_board_grid)
  have s: "s = \<lparr>board = board_of (grid_of (board s)), currentPlayer = currentPlayer s\<rparr>"
    using b by simp
  obtain ok where ok: "isValidMove s (fr, fc) (tr, tc) = Inr ok"
    using isValidMove_defined [OF w r, of "currentPlayer s"] s by auto
  show ?thesis
  proof (cases ok)
    case False
    then show ?thesis using assms Inr mv ok by (simp add: makeMove_def)
  next
    case True
    obtain g' p' where g: "wf_grid g'"
      "apply_move s (fr, fc) (tr, tc) = (\<lparr>board = board_of g', currentPlayer = p'\<rparr>, None)"
      using apply_move_grid [OF w r, of "currentPlayer s"] s by auto
    have "fst (makeMove s m) = \<lparr>board = board_of g', currentPlayer = p'\<rparr>"
      using Inr mv ok True g(2)
      by (cases "displayBoard \<lparr>board = board_of g', currentPlayer = p'\<rparr>")
         (auto simp: makeMove_def split: option.splits)
    then show ?thesis using g(1) by (simp add: valid_board_of)
  qed
qed

section \<open>What saveGame writes, loadGame reads back\<close>

subsection \<open>The tokens of a written value\<close>

lemma emit_Some: "emit (Some t) x = map_option (Cons t) x"
  by (simp add: emit_def)

lemma quote_units_plain: "list_all plain_unit s \<Longrightarrow> quote_units s = s"
  by (induction s rule: quote_units.induct) (auto simp: plain_unit_def quote_unit_def)

lemma lex_string_plain:
  "list_all plain_unit s \<Longrightarrow>
   lex (InString acc) (s @ 34 # rest) = map_option (Cons (TString (acc @ s))) (lex Outside rest)"
  by (induction s arbitrary: acc) (auto simp: plain_unit_def emit_Some)

lemma lex_quote:
  "list_all plain_unit s \<Longrightarrow>
   lex Outside (quote s @ rest) = map_option (Cons (TString s)) (lex Outside rest)"
  using lex_string_plain [of s "[]" rest]
  by (simp add: quote_def quote_units_plain is_ws_def)

lemma lex_ws: "list_all is_ws w \<Longrightarrow> lex Outside (w @ rest) = lex Outside rest"
  by (induction w) auto

lemma lex_nl: "list_all is_ws w \<Longrightarrow> lex Outside (10 # w @ rest) = lex Outside rest"
  using lex_ws [of "10 # w" rest] by (simp add: is_ws_def)

lemma ws_gap: "list_all is_ws gap"
  by (simp add: gap_def is_ws_def)

lemma plain_members_defined: "plain_members kvs \<Longrightarrow> filter (\<lambda>kv. snd kv \<noteq> JUndefined) kvs = kvs"
  by (induction kvs) (auto elim: plain.elims)

lemma map_option_append_Nil: "map_option ((@) []) x = x"
  by (cases x) simp_all

lemma lex_serialize:
  "plain v \<Longrightarrow> list_all is_ws ind \<Longrightarrow>
     lex Outside (serialize ind v @ rest) = map_option ((@) (tokens v)) (lex Outside rest)"
  "plain_elements xs \<Longrightarrow> list_all is_ws ind \<Longrightarrow>
     lex Outside (serialize_elements ind xs @ rest) =
       map_option ((@) (tokens_elements xs)) (lex Outside rest)"
  "plain_members kvs \<Longrightarrow> list_all is_ws ind \<Longrightarrow>
     lex Outside (serialize_members ind kvs @ rest) =
       map_option ((@) (tokens_members kvs)) (lex Outside rest)"
proof (induction ind v and ind xs and ind kvs arbitrary: rest and rest and rest
    rule: serialize_serialize_elements_serialize_members.induct)
  case (5 ind s)
  then show ?case by (cases "lex Outside rest") (simp_all add: lex_quote)
next
  case (6 ind xs)
  show ?case
  proof (cases "xs = []")
    case True
    then show ?thesis by (cases "lex Outside rest") (simp_all add: is_ws_def emit_Some)
  next
    case False
    have w: "list_all is_ws (ind @ gap)" using "6.prems" ws_gap by simp
    have p: "plain_elements xs" using 6 by simp
    have "lex Outside (serialize ind (JArr xs) @ rest) =
        map_option (Cons TLBracket) (lex Outside (serialize_elements (ind @ gap) xs @ 10 # ind @ 93 # rest))"
      using False lex_nl [OF w] by (simp add: is_ws_def emit_Some)
    also have "\<dots> = map_option (Cons TLBracket)
        (map_option ((@) (tokens_elements xs)) (lex Outside (10 # ind @ 93 # rest)))"
      using "6.IH" [OF False p w] by simp
    also have "lex Outside (10 # ind @ 93 # rest) = map_option (Cons TRBracket) (lex Outside rest)"
      using lex_nl [of ind "93 # rest"] 6 by (simp add: is_ws_def emit_Some)
    finally show ?thesis by (cases "lex Outside rest") simp_all
  qed
next
  case (7 ind kvs)
  have f: "filter (\<lambda>kv. snd kv \<noteq> JUndefined) kvs = kvs"
    using 7 by (simp add: plain_members_defined)
  show ?case
  proof (cases "kvs = []")
    case True
    then show ?thesis by (cases "lex Outside rest") (simp_all add: is_ws_def emit_Some)
  next
    case False
    have w: "list_all is_ws (ind @ gap)" using "7.prems" ws_gap by simp
    have p: "plain_members kvs" using 7 by simp
    have "lex Outside (serialize ind (JObj kvs) @ rest) =
        map_option (Cons TLBrace) (lex Outside (serialize_members (ind @ gap) kvs @ 10 # ind @ 125 # rest))"
      using False f lex_nl [OF w] by (simp add: is_ws_def emit_Some)
    also have "\<dots> = map_option (Cons TLBrace)
        (map_option ((@) (tokens_members kvs)) (lex Outside (10 # ind @ 125 # rest)))"
      using "7.IH" f False p w by simp
    also have "lex Outside (10 # ind @ 125 # rest) = map_option (Cons TRBrace) (lex Outside rest)"
      using lex_nl [of ind "125 # rest"] 7 by (simp add: is_ws_def emit_Some)
    finally show ?thesis by (cases "lex Outside rest") simp_all
  qed
next
  case (10 ind x y ys)
  have "lex Outside (serialize_elements ind (x # y # ys) @ rest) =
      map_option ((@) (tokens x)) (lex Outside (44 # 10 # ind @ serialize_elements ind (y # ys) @ rest))"
    using 10 by simp
  also have "lex Outside (44 # 10 # ind @ serialize_elements ind (y # ys) @ rest) =
      map_option (Cons TComma) (lex Outside (serialize_elements ind (y # ys) @ rest))"
    using lex_nl [of ind] 10 by (simp add: is_ws_def emit_Some)
  also have "lex Outside (serialize_elements ind (y # ys) @ rest) =
      map_option ((@) (tokens_elements (y # ys))) (lex Outside rest)"
    using 10 by simp
  finally show ?case by (cases "lex Outside rest") simp_all
next
  case (12 ind k v kvs)
  have v: "v \<noteq> JUndefined" "plain v" "list_all plain_unit k" "plain_members kvs"
    using 12 by auto
  have f: "filter (\<lambda>kv. snd kv \<noteq> JUndefined) kvs = kvs"
    using v by (simp add: plain_members_defined)
  have c: "lex Outside (58 # 32 # serialize ind v @ R) =
      map_option (Cons TColon) (map_option ((@) (tokens v)) (lex Outside R))" for R
    using "12.IH"(2) [OF v(1) v(2) "12.prems"(2)] by (simp add: is_ws_def emit_Some)
  show ?case
  proof (cases kvs)
    case Nil
    then show ?thesis using v c [of rest]
      by (cases "lex Outside rest") (simp_all add: lex_quote)
  next
    case (Cons kv kvs')
    obtain k' v' where kv: "kv = (k', v')" by (cases kv)
    have r: "lex Outside (44 # 10 # ind @ serialize_members ind kvs @ rest) =
      map_option (Cons TComma) (map_option ((@) (tokens_members kvs)) (lex Outside rest))"
      using lex_nl [of ind] "12.prems"(2) "12.IH"(3) [OF v(1) _ v(4) "12.prems"(2)] f Cons
      by (simp add: is_ws_def emit_Some)
    show ?thesis using v f Cons kv c r
      by (cases "lex Outside rest") (simp_all add: lex_quote)
  qed
qed (simp_all add: map_option_append_Nil)

subsection \<open>Parsing the tokens of a written value\<close>

lemma tokens_head:
  "plain v \<Longrightarrow> \<exists>t ts. tokens v = t # ts \<and> t \<noteq> TRBracket \<and> t \<noteq> TRBrace"
  by (cases v) simp_all

lemma tokens_elements_head:
  "plain_elements xs \<Longrightarrow> xs \<noteq> [] \<Longrightarrow>
     \<exists>t ts. tokens_elements xs = t # ts \<and> t \<noteq> TRBracket"
proof (cases xs)
  case (Cons x xs')
  assume "plain_elements xs"
  then have "plain x" using Cons by simp
  then obtain t ts where "tokens x = t # ts" "t \<noteq> TRBracket" using tokens_head by blast
  then show ?thesis using Cons by (cases xs') simp_all
qed simp

lemma tokens_members_head:
  "kvs \<noteq> [] \<Longrightarrow> \<exists>k ts. tokens_members kvs = TString k # TColon # ts"
  by (cases kvs rule: tokens_members.cases) simp_all

lemma obj_put_new:
  "k \<notin> fst ` set acc \<Longrightarrow> \<not> is_index_key k \<Longrightarrow> obj_put acc k v = acc @ [(k, v)]"
  by (simp add: obj_put_def)

lemma parse_tokens:
  "plain v \<Longrightarrow> length (tokens v) \<le> n \<Longrightarrow> parse_value n (tokens v @ rest) = Some (v, rest)"
  "plain_elements xs \<Longrightarrow> xs \<noteq> [] \<Longrightarrow> length (tokens_elements xs) < n \<Longrightarrow>
     parse_elements n acc (tokens_elements xs @ TRBracket # rest) = Some (JArr (acc @ xs), rest)"
  "plain_members kvs \<Longrightarrow> kvs \<noteq> [] \<Longrightarrow> length (tokens_members kvs) < n \<Longrightarrow>
     fst ` set acc' \<inter> fst ` set kvs = {} \<Longrightarrow>
     parse_members n acc' (tokens_members kvs @ TRBrace # rest) = Some (JObj (acc' @ kvs), rest)"
proof (induction v and xs and kvs arbitrary: n rest and n acc rest and n acc' rest
    rule: tokens_tokens_elements_tokens_members.induct)
  case (1 s)
  then show ?case by (cases n) simp_all
next
  case (2 xs)
  then obtain m where n: "n = Suc m" by (cases n) simp_all
  show ?case
  proof (cases "xs = []")
    case True
    then show ?thesis using n by simp
  next
    case False
    have p: "plain_elements xs" using 2 by simp
    obtain t ts where h: "tokens_elements xs = t # ts" "t \<noteq> TRBracket"
      using tokens_elements_head [OF p False] by blast
    have l: "length (tokens_elements xs) < m" using 2 n by simp
    have "parse_value n (tokens (JArr xs) @ rest) =
        parse_elements m [] (tokens_elements xs @ TRBracket # rest)"
      using n h by (cases t) simp_all
    then show ?thesis using "2.IH" [OF p False l, of "[]" rest] by simp
  qed
next
  case (3 kvs)
  then obtain m where n: "n = Suc m" by (cases n) simp_all
  show ?case
  proof (cases "kvs = []")
    case True
    then show ?thesis using n by simp
  next
    case False
    have p: "plain_members kvs" using 3 by simp
    obtain k ts where h: "tokens_members kvs = TString k # TColon # ts"
      using tokens_members_head [OF False] by blast
    have l: "length (tokens_members kvs) < m" using 3 n by simp
    have "parse_value n (tokens (JObj kvs) @ rest) =
        parse_members m [] (tokens_members kvs @ TRBrace # rest)"
      using n h by simp
    then show ?thesis using "3.IH" [OF p False l, of "[]" rest] by simp
  qed
next
  case (6 x)
  then obtain m where n: "n = Suc m" by (cases n) simp_all
  have "parse_value m (tokens x @ TRBracket # rest) = Some (x, TRBracket # rest)"
    using 6 n by simp
  then show ?case using n by simp
next
  case (7 x y ys)
  then obtain m where n: "n = Suc m" by (cases n) simp_all
  have px: "plain x" and pr: "plain_elements (y # ys)" using 7 by simp_all
  obtain t ts where h: "tokens x = t # ts" using tokens_head [OF px] by blast
  have l: "length (tokens x) \<le> m" "length (tokens_elements (y # ys)) < m"
    using "7.prems"(3) n h by simp_all
  have "parse_value m (tokens x @ TComma # tokens_elements (y # ys) @ TRBracket # rest) =
      Some (x, TComma # tokens_elements (y # ys) @ TRBracket # rest)"
    using "7.IH"(1) [OF px l(1)] by simp
  then show ?case using n "7.IH"(2) [OF pr _ l(2), of "acc @ [x]" rest] by simp
next
  case (9 k v)
  then obtain m where n: "n = Suc m" by (cases n) simp_all
  have pv: "plain v" and k: "\<not> is_index_key k" "k \<notin> fst ` set acc'" using 9 by auto
  have "parse_value m (tokens v @ TRBrace # rest) = Some (v, TRBrace # rest)"
    using "9.IH" [OF pv] "9.prems"(3) n by simp
  then show ?case using n k by (simp add: obj_put_new)
next
  case (10 k v kv kvs)
  then obtain m where n: "n = Suc m" by (cases n) simp_all
  have pv: "plain v" and k: "\<not> is_index_key k" "k \<notin> fst ` set acc'"
    and pr: "plain_members (kv # kvs)" and d: "k \<notin> fst ` set (kv # kvs)"
    using 10 by auto
  obtain t ts where h: "tokens v = t # ts" using tokens_head [OF pv] by blast
  have l: "length (tokens v) \<le> m" "length (tokens_members (kv # kvs)) < m"
    using "10.prems"(3) n h by simp_all
  have dj: "fst ` set (acc' @ [(k, v)]) \<inter> fst ` set (kv # kvs) = {}"
    using "10.prems"(4) d by auto
  have "parse_value m (tokens v @ TComma # tokens_members (kv # kvs) @ TRBrace # rest) =
      Some (v, TComma # tokens_members (kv # kvs) @ TRBrace # rest)"
    using "10.IH"(1) [OF pv l(1)] by simp
  then show ?case
    using n k "10.IH"(2) [OF pr _ l(2) dj, of rest] by (simp add: obj_put_new)
qed simp_all

lemma JSON_roundtrip_plain: "plain v \<Longrightarrow> JSON_parse (JSON_stringify v) = Some v"
  using lex_serialize(1) [of v "[]" "[]"] parse_tokens(1) [of v "2 * length (tokens v) + 1" "[]"]
  by (simp add: JSON_parse_def JSON_stringify_def)

subsection \<open>Fuel\<close>

text \<open>
  The fuel \<open>JSON_parse\<close> gives the parser is enough: every call consumes a token, so
  more fuel than twice the number of tokens changes nothing.
\<close>

lemma parse_consumes:
  "parse_value n ts = Some (v, r) \<Longrightarrow> length r < length ts"
  "parse_elements n acc ts = Some (v, r) \<Longrightarrow> length r < length ts"
  "parse_members n acc' ts = Some (v, r) \<Longrightarrow> length r < length ts"
proof (induction n ts and n acc ts and n acc' ts arbitrary: v r and v r and v r
    rule: parse_value_parse_elements_parse_members.induct)
  case (3 n t ts)
  then show ?case
    by (cases t; cases ts) (fastforce split: token.splits)+
next
  case (5 n acc ts)
  then show ?case
    by (fastforce split: option.splits prod.splits list.splits token.splits)
next
  case (7 n acc ts)
  then show ?case
    by (fastforce split: option.splits prod.splits list.splits token.splits)
qed simp_all

lemma parse_fuel_step:
  "(\<forall>ts. 2 * length ts + 1 \<le> n \<longrightarrow> parse_value (Suc n) ts = parse_value n ts) \<and>
   (\<forall>acc ts. 2 * length ts + 2 \<le> n \<longrightarrow> parse_elements (Suc n) acc ts = parse_elements n acc ts) \<and>
   (\<forall>acc ts. 2 * length ts \<le> n \<longrightarrow> parse_members (Suc n) acc ts = parse_members n acc ts)"
proof (induction n)
  case 0
  then show ?case by simp
next
  case (Suc n)
  have v: "parse_value (Suc (Suc n)) ts = parse_value (Suc n) ts" if "2 * length ts + 1 \<le> Suc n" for ts
  proof (cases ts)
    case Nil
    then show ?thesis by simp
  next
    case (Cons t ts')
    have e: "parse_elements (Suc n) [] ts' = parse_elements n [] ts'"
      and m: "parse_members (Suc n) [] ts' = parse_members n [] ts'"
      using Suc that Cons by simp_all
    show ?thesis using Cons e m by (simp split: token.splits list.splits)
  qed
  have e: "parse_elements (Suc (Suc n)) acc ts = parse_elements (Suc n) acc ts"
    if "2 * length ts + 2 \<le> Suc n" for acc ts
  proof -
    have pv: "parse_value (Suc n) ts = parse_value n ts" using Suc that by simp
    show ?thesis
    proof (cases "parse_value n ts")
      case None
      then show ?thesis using pv by simp
    next
      case (Some a)
      obtain x r where a: "a = (x, r)" by (cases a)
      have l: "length r < length ts" using parse_consumes(1) Some a by blast
      have "parse_elements (Suc n) (acc @ [x]) r' = parse_elements n (acc @ [x]) r'"
        if "r = TComma # r'" for r'
        using Suc l that \<open>2 * length ts + 2 \<le> Suc n\<close> by simp
      then show ?thesis using pv Some a by (simp split: list.splits token.splits)
    qed
  qed
  have m: "parse_members (Suc (Suc n)) acc ts = parse_members (Suc n) acc ts"
    if "2 * length ts \<le> Suc n" for acc ts
  proof (cases "\<exists>k r. ts = TString k # TColon # r")
    case False
    then show ?thesis by (auto split: list.splits token.splits)
  next
    case True
    then obtain k r where ts: "ts = TString k # TColon # r" by blast
    have pv: "parse_value (Suc n) r = parse_value n r" using Suc that ts by simp
    show ?thesis
    proof (cases "parse_value n r")
      case None
      then show ?thesis using pv ts by simp
    next
      case (Some a)
      obtain x r' where a: "a = (x, r')" by (cases a)
      have l: "length r' < length r" using parse_consumes(1) Some a by blast
      have "parse_members (Suc n) (obj_put acc k x) r'' = parse_members n (obj_put acc k x) r''"
        if "r' = TComma # r''" for r''
        using Suc l that ts \<open>2 * length ts \<le> Suc n\<close> by simp
      then show ?thesis using pv Some a ts by (simp split: list.splits token.splits)
    qed
  qed
  show ?case using v e m by blast
qed

lemma parse_value_fuel:
  "2 * length ts + 1 \<le> n \<Longrightarrow> parse_value n ts = parse_value (2 * length ts + 1) ts"
proof (induction n)
  case 0
  then show ?case by simp
next
  case (Suc n)
  show ?case
  proof (cases "2 * length ts + 1 \<le> n")
    case True
    then show ?thesis using Suc parse_fuel_step [of n] by simp
  next
    case False
    then have "Suc n = 2 * length ts + 1" using Suc.prems by simp
    then show ?thesis by simp
  qed
qed

subsection \<open>The file of a state\<close>

lemma plain_elements_all: "plain_elements xs = list_all plain xs"
  by (induction xs) simp_all

lemma plain_tag: "is_piece_tag t \<Longrightarrow> list_all plain_unit t"
  by (auto simp: is_piece_tag_def empty_cell_def plain_unit_def is_lead_def is_trail_def)

lemma plain_tag_unit: "is_piece_tag t \<Longrightarrow> c \<in> set t \<Longrightarrow> plain_unit c"
  using plain_tag [of t] by (simp add: list_all_iff)

lemma plain_board_of: "wf_grid g \<Longrightarrow> plain (board_of g)"
  by (auto simp: wf_grid_def board_of_def plain_elements_all list_all_iff intro: plain_tag_unit)

lemma plain_player_of: "plain (player_of turn)"
  by (cases turn) (simp_all add: plain_unit_def is_lead_def is_trail_def)

lemma plain_state:
  assumes "wf_grid g"
  shows "plain (JObj [(str ''board'', board_of g), (str ''currentPlayer'', player_of turn)])"
  using plain_board_of [OF assms] plain_player_of [of turn]
  by (simp add: plain_unit_def is_lead_def is_trail_def is_index_key_def)

lemma grid_of_board_of: "grid_of (board_of g) = g"
  by (simp add: board_of_def comp_def map_idI)

lemma save_load_grid:
  assumes "wf_grid g" "writable fs"
  shows "loadGame (fst (saveGame fs (state_of g turn))) s =
           (state_of g turn, [Log [(Green, str ''Game loaded successfully!'')]])"
  using JSON_roundtrip_plain [OF plain_state [OF assms(1), of turn]] assms(2)
  by (simp add: saveGame_def loadGame_def state_of_def)

lemma JSON_parse_examples:
  "JSON_parse (str ''{'') = None"
  "JSON_parse (str ''{}'') = Some (JObj [])"
  "JSON_parse (str ''null'') = Some JNull"
  by (simp_all add: JSON_parse_def is_ws_def emit_def is_word_unit_def is_digit_def
      word_token_def numeral_eq_Suc)

lemma loadGame_fails:
  assumes "file_text fs = None \<or>
     (\<exists>data. file_text fs = Some data \<and> (JSON_parse data = None \<or> JSON_parse data = Some JNull))"
  shows "loadGame fs s = (s, [Log [(Yellow, str ''No saved game found. Starting new game.'')]])"
  using assms by (auto simp: loadGame_def)

lemma displayBoard_initial: "snd (displayBoard initial_state) = None"
  using displayBoard_wf [OF wf_standard, of WhiteSide] by (simp add: initial_state_grid)

lemma run_Load_fails:
  assumes "file_text fs = None \<or>
     (\<exists>data. file_text fs = Some data \<and> (JSON_parse data = None \<or> JSON_parse data = Some JNull))"
  shows "run fs Load =
     (fs, initial_state,
      Log [(Yellow, str ''No saved game found. Starting new game.'')] # fst (displayBoard initial_state),
      None)"
  using loadGame_fails [OF assms, of initial_state] displayBoard_initial
  by (cases "displayBoard initial_state") simp

lemma load_empty_object:
  "loadGame \<lparr>file_text = Some (str ''{}''), writable = True\<rparr> initial_state =
     (\<lparr>board = JUndefined, currentPlayer = JUndefined\<rparr>,
      [Log [(Green, str ''Game loaded successfully!'')]])"
  using JSON_parse_examples(2) by (simp add: loadGame_def)

lemma loadGame_parsed:
  assumes "file_text fs = Some data" "JSON_parse data = Some v" "js_member v (str ''board'') = Inr b"
  shows "\<exists>p. js_member v (str ''currentPlayer'') = Inr p \<and>
     loadGame fs s = (\<lparr>board = b, currentPlayer = p\<rparr>, [Log [(Green, str ''Game loaded successfully!'')]])"
proof -
  obtain p where p: "js_member v (str ''currentPlayer'') = Inr p"
    using assms(3) by (cases v) simp_all
  show ?thesis using assms p by (simp add: loadGame_def)
qed

lemma run_load_empty_object:
  "run \<lparr>file_text = Some (str ''{}''), writable = True\<rparr> Load =
     (\<lparr>file_text = Some (str ''{}''), writable = True\<rparr>,
      \<lparr>board = JUndefined, currentPlayer = JUndefined\<rparr>,
      [Log [(Green, str ''Game loaded successfully!'')], Log [(Blue, str ''  a b c d e f g h'')]],
      Some TypeError)"
  using load_empty_object by (simp add: displayBoard_def render_cell_def read_cell_def)

section \<open>The validator\<close>

text \<open>
  Claim C2. For every board (a grid of eight rows of eight piece tags), either side to
  move and every move with both coordinates in range, \<^verbatim>\<open>isValidMove\<close> returns what the
  specification's four rules give on the tag of the source cell, the tag of the
  destination cell and the side to move: false when the source is empty; otherwise false
  when the colour of the source piece is not the side to move; otherwise true when the
  destination is empty; otherwise whether the two pieces differ in colour. Nothing else
  of the board enters the result.
\<close>

theorem isValidMove_refines_spec:
  assumes "wf_grid g" "fr < 8" "fc < 8" "tr < 8" "tc < 8"
  shows "isValidMove (state_of g turn) (fr, fc) (tr, tc) =
           Inr (validator_spec (g ! fr ! fc) (g ! tr ! tc) turn)"
  using assms by (rule isValidMove_grid)

theorem isValidMove_refines_spec_witness:
  "wf_grid standard_position \<and>
   isValidMove (state_of standard_position WhiteSide) (6, 4) (4, 4) = Inr True \<and>
   isValidMove (state_of standard_position WhiteSide) (6, 4) (7, 4) = Inr False \<and>
   isValidMove (state_of standard_position BlackSide) (6, 4) (4, 4) = Inr False"
proof -
  have c: "standard_position ! 6 ! 4 = str ''P''" "standard_position ! 4 ! 4 = str ''.''"
    "standard_position ! 7 ! 4 = str ''K''"
    by (simp_all add: standard_position_def back_rank_def empty_cell_def)
  have v: "validator_spec (str ''P'') (str ''.'') WhiteSide"
    "\<not> validator_spec (str ''P'') (str ''K'') WhiteSide"
    "\<not> validator_spec (str ''P'') (str ''.'') BlackSide"
    by (simp_all add: validator_spec_def empty_cell_def tag_colour_def)
  show ?thesis
    using isValidMove_refines_spec [OF wf_standard, of 6 4 4 4 WhiteSide]
      isValidMove_refines_spec [OF wf_standard, of 6 4 7 4 WhiteSide]
      isValidMove_refines_spec [OF wf_standard, of 6 4 4 4 BlackSide]
      wf_standard c v
    by simp
qed

section \<open>Applying a move\<close>

text \<open>
  Claim C3. When the notation parses and the validator approves the move on a state of
  the data model, \<^verbatim>\<open>makeMove\<close> ends in a state of the data model in which the
  destination cell holds the piece that was in the source cell, the source cell is
  empty, every other cell is as before and the other side is to move; it logs the
  success line and the board, and no error occurs.
\<close>

theorem makeMove_applies_move:
  assumes "wf_grid g" "parseMove m = Inr ((fr, fc), (tr, tc))"
    "isValidMove (state_of g turn) (fr, fc) (tr, tc) = Inr True"
  shows "\<exists>g'. makeMove (state_of g turn) m =
           (state_of g' (opposite turn),
            Log [(Green, str ''Move successful!'')] # fst (displayBoard (state_of g' (opposite turn)))) \<and>
         snd (displayBoard (state_of g' (opposite turn))) = None \<and>
         wf_grid g' \<and>
         g' ! tr ! tc = g ! fr ! fc \<and>
         g' ! fr ! fc = empty_cell \<and>
         (\<forall>r c. r < 8 \<longrightarrow> c < 8 \<longrightarrow> (r, c) \<noteq> (fr, fc) \<longrightarrow> (r, c) \<noteq> (tr, tc) \<longrightarrow>
            g' ! r ! c = g ! r ! c)"
  using assms by (rule makeMove_grid)

theorem makeMove_applies_move_witness:
  "\<exists>g'. fst (makeMove initial_state (str ''e2e4'')) = state_of g' BlackSide \<and>
     g' ! 4 ! 4 = str ''P'' \<and> g' ! 6 ! 4 = str ''.'' \<and> g' ! 0 ! 0 = str ''r''"
proof -
  have v: "isValidMove (state_of standard_position WhiteSide) (6, 4) (4, 4) = Inr True"
    using isValidMove_grid [OF wf_standard, of 6 4 4 4 WhiteSide]
    by (simp add: validator_spec_def standard_position_def back_rank_def empty_cell_def
      tag_colour_def)
  obtain g' where g: "makeMove (state_of standard_position WhiteSide) (str ''e2e4'') =
           (state_of g' (opposite WhiteSide),
            Log [(Green, str ''Move successful!'')] # fst (displayBoard (state_of g' (opposite WhiteSide))))"
    "g' ! 4 ! 4 = standard_position ! 6 ! 4" "g' ! 6 ! 4 = empty_cell"
    "\<forall>r c. r < 8 \<longrightarrow> c < 8 \<longrightarrow> (r, c) \<noteq> (6, 4) \<longrightarrow> (r, c) \<noteq> (4, 4) \<longrightarrow>
            g' ! r ! c = standard_position ! r ! c"
    using makeMove_applies_move [OF wf_standard parseMove_examples(1) v] by blast
  have "g' ! 0 ! 0 = standard_position ! 0 ! 0" using g(4) by simp
  then show ?thesis using g(1,2,3)
    by (intro exI [of _ g'])
       (simp add: initial_state_grid standard_position_def back_rank_def empty_cell_def)
qed

text \<open>
  Claim C4. When the notation parses and the validator rejects the move, \<^verbatim>\<open>makeMove\<close>
  logs \<^verbatim>\<open>Invalid move!\<close> and nothing else, and the state (board and side to move) is
  the state before the command.
\<close>

theorem makeMove_rejected_unchanged:
  assumes "parseMove m = Inr (from, to)" "isValidMove s from to = Inr False"
  shows "makeMove s m = (s, [Log [(Red, str ''Invalid move!'')]])"
  using assms by (rule makeMove_invalid)

theorem makeMove_rejected_unchanged_witness:
  "parseMove (str ''e2e4'') = Inr ((6, 4), (4, 4)) \<and>
   isValidMove (state_of standard_position BlackSide) (6, 4) (4, 4) = Inr False \<and>
   makeMove (state_of standard_position BlackSide) (str ''e2e4'') =
     (state_of standard_position BlackSide, [Log [(Red, str ''Invalid move!'')]])"
proof -
  have v: "isValidMove (state_of standard_position BlackSide) (6, 4) (4, 4) = Inr False"
    using isValidMove_grid [OF wf_standard, of 6 4 4 4 BlackSide]
    by (simp add: validator_spec_def standard_position_def back_rank_def empty_cell_def
      tag_colour_def)
  show ?thesis
    using makeMove_rejected_unchanged [OF parseMove_examples(1) v] v parseMove_examples(1)
    by simp
qed

section \<open>The move parser\<close>

text \<open>
  Claim C6. \<^verbatim>\<open>parseMove\<close> succeeds exactly on the strings of four characters that are a
  file letter \<open>a\<close> to \<open>h\<close>, a rank digit \<open>1\<close> to \<open>8\<close>, a file letter and a rank
  digit. On success each row is 8 minus the rank and each column is the file letter
  minus \<open>a\<close>; \<open>e2e4\<close> gives from (6,4) to (4,4) and \<open>a1h8\<close> gives from (7,0) to
  (0,7). On every other string, such as \<open>i9i9\<close> and \<open>e2e9\<close>, it throws the error whose
  message names the notation \<open>e2e4\<close>.
\<close>

theorem parseMove_characterisation:
  "((\<exists>mv. parseMove m = Inr mv) \<longleftrightarrow>
      (\<exists>f1 r1 f2 r2. m = [f1, r1, f2, r2] \<and> f1 \<in> set (str ''abcdefgh'') \<and>
         r1 \<in> set (str ''12345678'') \<and> f2 \<in> set (str ''abcdefgh'') \<and>
         r2 \<in> set (str ''12345678''))) \<and>
   (\<forall>fr fc tr tc. parseMove m = Inr ((fr, fc), (tr, tc)) \<longrightarrow>
      int fr = 8 - (int (m ! 1) - int (of_char CHR ''0'')) \<and>
      int fc = int (m ! 0) - int (of_char CHR ''a'') \<and>
      int tr = 8 - (int (m ! 3) - int (of_char CHR ''0'')) \<and>
      int tc = int (m ! 2) - int (of_char CHR ''a'')) \<and>
   ((\<forall>mv. parseMove m \<noteq> Inr mv) \<longrightarrow>
      parseMove m = Inl (Error (str ''Invalid move format. Use algebraic notation (e.g., '' @
                                str ''e2e4'' @ str '').''))) \<and>
   parseMove (str ''e2e4'') = Inr ((6, 4), (4, 4)) \<and>
   parseMove (str ''a1h8'') = Inr ((7, 0), (0, 7)) \<and>
   (\<exists>msg. parseMove (str ''i9i9'') = Inl (Error msg)) \<and>
   (\<exists>msg. parseMove (str ''e2e9'') = Inl (Error msg))"
proof -
  have a: "(\<exists>mv. parseMove m = Inr mv) \<longleftrightarrow>
      (\<exists>f1 r1 f2 r2. m = [f1, r1, f2, r2] \<and> f1 \<in> set (str ''abcdefgh'') \<and>
         r1 \<in> set (str ''12345678'') \<and> f2 \<in> set (str ''abcdefgh'') \<and>
         r2 \<in> set (str ''12345678''))"
    unfolding parseMove_Inr_iff matches_move_iff is_file_iff is_rank_iff ..
  have b: "\<forall>fr fc tr tc. parseMove m = Inr ((fr, fc), (tr, tc)) \<longrightarrow>
      int fr = 8 - (int (m ! 1) - int (of_char CHR ''0'')) \<and>
      int fc = int (m ! 0) - int (of_char CHR ''a'') \<and>
      int tr = 8 - (int (m ! 3) - int (of_char CHR ''0'')) \<and>
      int tc = int (m ! 2) - int (of_char CHR ''a'')"
    using parseMove_coords [of m] by simp
  have c: "(\<forall>mv. parseMove m \<noteq> Inr mv) \<longrightarrow>
      parseMove m = Inl (Error (str ''Invalid move format. Use algebraic notation (e.g., '' @
                                str ''e2e4'' @ str '').''))"
    using parseMove_Inr_iff [of m] parseMove_fail [of m] by blast
  have d: "\<exists>msg. parseMove (str ''i9i9'') = Inl (Error msg)"
    "\<exists>msg. parseMove (str ''e2e9'') = Inl (Error msg)"
    using parseMove_fail [OF parseMove_examples(3)] parseMove_fail [OF parseMove_examples(4)]
    by blast+
  show ?thesis
    using a b c d parseMove_examples(1,2) by blast
qed

theorem parseMove_characterisation_witness:
  "(\<exists>fr fc tr tc. parseMove (str ''g1f3'') = Inr ((fr, fc), (tr, tc)) \<and>
      int fr = 7 \<and> int fc = 6 \<and> int tr = 5 \<and> int tc = 5) \<and>
   parseMove (str ''e2'') =
     Inl (Error (str ''Invalid move format. Use algebraic notation (e.g., e2e4).''))"
proof -
  have "\<exists>mv. parseMove (str ''g1f3'') = Inr mv"
    using parseMove_characterisation [of "str ''g1f3''"] by simp
  then obtain fr fc tr tc where p: "parseMove (str ''g1f3'') = Inr ((fr, fc), (tr, tc))"
    by auto
  have "int fr = 7 \<and> int fc = 6 \<and> int tr = 5 \<and> int tc = 5"
    using parseMove_characterisation [of "str ''g1f3''"] p by simp
  moreover have "\<forall>mv. parseMove (str ''e2'') \<noteq> Inr mv"
    using parseMove_characterisation [of "str ''e2''"] by simp
  then have "parseMove (str ''e2'') =
     Inl (Error (str ''Invalid move format. Use algebraic notation (e.g., e2e4).''))"
    using parseMove_characterisation [of "str ''e2''"] by simp
  ultimately show ?thesis using p by blast
qed

text \<open>
  Claim C7. Both coordinates of a parsed move have row and column below 8. On a board
  that satisfies the invariant, the reads and writes of the validator and of the move
  application at these coordinates stay inside the arrays, and neither throws.
\<close>

theorem parseMove_in_range:
  assumes "parseMove m = Inr ((fr, fc), (tr, tc))"
  shows "fr < 8 \<and> fc < 8 \<and> tr < 8 \<and> tc < 8 \<and>
     (valid_board b \<longrightarrow>
        in_grid b (fr, fc) \<and> in_grid b (tr, tc) \<and>
        (\<exists>ok. isValidMove \<lparr>board = b, currentPlayer = p\<rparr> (fr, fc) (tr, tc) = Inr ok) \<and>
        (\<exists>s'. apply_move \<lparr>board = b, currentPlayer = p\<rparr> (fr, fc) (tr, tc) = (s', None)))"
proof -
  have r: "fr < 8" "fc < 8" "tr < 8" "tc < 8"
    using parseMove_coords [OF assms] by simp_all
  have "in_grid b (fr, fc) \<and> in_grid b (tr, tc) \<and>
        (\<exists>ok. isValidMove \<lparr>board = b, currentPlayer = p\<rparr> (fr, fc) (tr, tc) = Inr ok) \<and>
        (\<exists>s'. apply_move \<lparr>board = b, currentPlayer = p\<rparr> (fr, fc) (tr, tc) = (s', None))"
    if "valid_board b"
  proof -
    from that have w: "wf_grid (grid_of b)" and e: "board_of (grid_of b) = b"
      by (simp_all add: valid_board_grid)
    show ?thesis
      using in_grid_board_of [OF w r(1,2)] in_grid_board_of [OF w r(3,4)]
        isValidMove_defined [OF w r, of p] apply_move_defined [OF w r, of p]
      by (simp add: e)
  qed
  then show ?thesis using r by blast
qed

theorem parseMove_in_range_witness:
  "parseMove (str ''a1h8'') = Inr ((7, 0), (0, 7)) \<and> valid_board initial_board \<and>
   in_grid initial_board (7, 0) \<and> in_grid initial_board (0, 7) \<and>
   (\<exists>ok. isValidMove initial_state (7, 0) (0, 7) = Inr ok)"
  using parseMove_in_range [OF parseMove_examples(2), of initial_board "S ''white''"]
    parseMove_examples(2)
  by (simp add: initial_state_def initial_board_def is_piece_tag_def empty_cell_def)

section \<open>The initial state\<close>

text \<open>
  Claim C8. The state the module starts with is the canonical starting position: black
  on rows 0 and 1, white on rows 6 and 7, each back rank in the order rook, knight,
  bishop, queen, king, bishop, knight, rook behind a full rank of pawns, every other cell
  empty, and white to move. It is the state a command finds at the start of a run.
\<close>

theorem initial_state_canonical:
  "initial_state = state_of standard_position WhiteSide \<and>
   board initial_state = board_of standard_position \<and>
   currentPlayer initial_state = S ''white'' \<and>
   wf_grid standard_position \<and>
   fst (snd (run fs Board)) = initial_state"
  by (simp add: initial_state_grid wf_standard state_of_def split_beta)

section \<open>A move from a cell to itself\<close>

text \<open>
  Claim C10. A move whose source and destination are the same cell is rejected on every
  board of the data model, for either side and every cell in range; on no state
  whatever does the validator approve it, so a command with such a notation leaves the
  state as it was.
\<close>

theorem self_move_rejected:
  "(wf_grid g \<longrightarrow> r < 8 \<longrightarrow> c < 8 \<longrightarrow> isValidMove (state_of g turn) (r, c) (r, c) = Inr False) \<and>
   isValidMove s (r, c) (r, c) \<noteq> Inr True \<and>
   (parseMove m = Inr ((r, c), (r, c)) \<longrightarrow> fst (makeMove s m) = s)"
  using isValidMove_grid [of g r c r c turn] isValidMove_self [of s "(r, c)"]
    makeMove_self [of m "(r, c)" s]
  by (simp add: validator_spec_self)

theorem self_move_rejected_witness:
  "wf_grid standard_position \<and>
   isValidMove (state_of standard_position WhiteSide) (6, 4) (6, 4) = Inr False \<and>
   isValidMove (state_of standard_position WhiteSide) (4, 4) (4, 4) = Inr False \<and>
   parseMove (str ''e2e2'') = Inr ((6, 4), (6, 4)) \<and>
   fst (makeMove initial_state (str ''e2e2'')) = initial_state"
proof -
  have p: "parseMove (str ''e2e2'') = Inr ((6, 4), (6, 4))"
    by (simp add: parseMove_def matches_move_def is_file_def is_rank_def parseInt_digit_def)
  show ?thesis
    using self_move_rejected [of standard_position 6 4 WhiteSide initial_state "str ''e2e2''"]
      self_move_rejected [of standard_position 4 4 WhiteSide initial_state "str ''e2e2''"] p
    by (simp add: wf_standard)
qed

section \<open>Saving and loading\<close>

text \<open>
  Claim C5. For every state of the data model (a grid of eight rows of eight piece tags
  and either side to move), when the write succeeds, \<^verbatim>\<open>saveGame\<close> reports success and
  a \<^verbatim>\<open>loadGame\<close> on the file it wrote, from whatever state, ends in the saved state:
  the same grid, cell for cell, and the same side to move.
\<close>

theorem save_load_roundtrip:
  assumes "wf_grid g" "writable fs"
  shows "\<exists>fs'. saveGame fs (state_of g turn) =
             (fs', [Log [(Green, str ''Game saved successfully!'')]], None) \<and>
           loadGame fs' s = (state_of g turn, [Log [(Green, str ''Game loaded successfully!'')]]) \<and>
           grid_of (board (fst (loadGame fs' s))) = g \<and>
           currentPlayer (fst (loadGame fs' s)) = player_of turn"
proof -
  have l: "loadGame (fst (saveGame fs (state_of g turn))) s =
           (state_of g turn, [Log [(Green, str ''Game loaded successfully!'')]])"
    using assms by (rule save_load_grid)
  have "saveGame fs (state_of g turn) =
      (fst (saveGame fs (state_of g turn)), [Log [(Green, str ''Game saved successfully!'')]], None)"
    using assms(2) by (simp add: saveGame_def)
  then show ?thesis
    using l by (intro exI [of _ "fst (saveGame fs (state_of g turn))"])
      (simp add: state_of_def grid_of_board_of)
qed

theorem save_load_roundtrip_witness:
  "wf_grid standard_position \<and>
   (\<exists>fs'. saveGame \<lparr>file_text = None, writable = True\<rparr> initial_state =
             (fs', [Log [(Green, str ''Game saved successfully!'')]], None) \<and>
      loadGame fs' \<lparr>board = JNull, currentPlayer = JNull\<rparr> =
        (initial_state, [Log [(Green, str ''Game loaded successfully!'')]]))"
  using save_load_roundtrip [OF wf_standard, of "\<lparr>file_text = None, writable = True\<rparr>"
      WhiteSide "\<lparr>board = JNull, currentPlayer = JNull\<rparr>"] wf_standard
  by (auto simp: initial_state_grid)

text \<open>
  Claim C1. When the read fails, or \<^verbatim>\<open>JSON.parse\<close> throws, or the text is \<^verbatim>\<open>null\<close>
  (reading a property of it throws), \<^verbatim>\<open>loadGame\<close> leaves the state as it is and logs
  the one line \<^verbatim>\<open>No saved game found. Starting new game.\<close> in yellow. The \<^verbatim>\<open>load\<close>
  command calls it on the state the module starts with, so the command ends in the
  default starting state, shows that board, and no error escapes.
\<close>

theorem loadGame_failure_default:
  assumes "file_text fs = None \<or>
     (\<exists>data. file_text fs = Some data \<and> (JSON_parse data = None \<or> JSON_parse data = Some JNull))"
  shows "loadGame fs s = (s, [Log [(Yellow, str ''No saved game found. Starting new game.'')]]) \<and>
     run fs Load =
       (fs, initial_state,
        Log [(Yellow, str ''No saved game found. Starting new game.'')] #
          fst (displayBoard initial_state),
        None) \<and>
     initial_state = state_of standard_position WhiteSide"
  using loadGame_fails [OF assms] run_Load_fails [OF assms] initial_state_grid by simp

theorem loadGame_failure_default_witness:
  "fst (snd (run \<lparr>file_text = None, writable = True\<rparr> Load)) = initial_state \<and>
   snd (snd (snd (run \<lparr>file_text = None, writable = True\<rparr> Load))) = None \<and>
   JSON_parse (str ''{'') = None \<and>
   loadGame \<lparr>file_text = Some (str ''{''), writable = True\<rparr> initial_state =
     (initial_state, [Log [(Yellow, str ''No saved game found. Starting new game.'')]]) \<and>
   loadGame \<lparr>file_text = Some (str ''null''), writable = False\<rparr> initial_state =
     (initial_state, [Log [(Yellow, str ''No saved game found. Starting new game.'')]])"
proof -
  have a: "file_text \<lparr>file_text = None, writable = True\<rparr> = None \<or>
     (\<exists>data. file_text \<lparr>file_text = None, writable = True\<rparr> = Some data \<and>
        (JSON_parse data = None \<or> JSON_parse data = Some JNull))"
    by simp
  have b: "file_text \<lparr>file_text = Some (str ''{''), writable = True\<rparr> = None \<or>
     (\<exists>data. file_text \<lparr>file_text = Some (str ''{''), writable = True\<rparr> = Some data \<and>
        (JSON_parse data = None \<or> JSON_parse data = Some JNull))"
    using JSON_parse_examples(1) by simp
  have c: "file_text \<lparr>file_text = Some (str ''null''), writable = False\<rparr> = None \<or>
     (\<exists>data. file_text \<lparr>file_text = Some (str ''null''), writable = False\<rparr> = Some data \<and>
        (JSON_parse data = None \<or> JSON_parse data = Some JNull))"
    using JSON_parse_examples(3) by simp
  show ?thesis
    using loadGame_failure_default [OF a, of initial_state]
      loadGame_failure_default [OF b, of initial_state]
      loadGame_failure_default [OF c, of initial_state] JSON_parse_examples(1)
    by (simp del: run.simps)
qed

section \<open>The board invariant\<close>

text \<open>
  Claim C9, as stated, fails: \<^verbatim>\<open>loadGame\<close> assigns what it parsed without looking at
  it. On a file holding \<^verbatim>\<open>{}\<close> the \<^verbatim>\<open>load\<close> command reports success and sets both
  variables to \<^verbatim>\<open>undefined\<close>, which is no board; \<^verbatim>\<open>displayBoard\<close> then throws after
  the first line.
\<close>

theorem load_breaks_board_invariant:
  "valid_board (board initial_state) \<and>
   JSON_parse (str ''{}'') = Some (JObj []) \<and>
   run \<lparr>file_text = Some (str ''{}''), writable = True\<rparr> Load =
     (\<lparr>file_text = Some (str ''{}''), writable = True\<rparr>,
      \<lparr>board = JUndefined, currentPlayer = JUndefined\<rparr>,
      [Log [(Green, str ''Game loaded successfully!'')], Log [(Blue, str ''  a b c d e f g h'')]],
      Some TypeError) \<and>
   \<not> valid_board (board (fst (snd (run \<lparr>file_text = Some (str ''{}''), writable = True\<rparr> Load))))"
  using run_load_empty_object JSON_parse_examples(2) valid_board_of [OF wf_standard]
  by (simp add: initial_state_grid state_of_def del: run.simps)

text \<open>
  Claim C9, amended. The board invariant holds of the initial state. It is preserved by
  \<^verbatim>\<open>makeMove\<close> on every notation, and by a \<^verbatim>\<open>loadGame\<close> whose read or parse fails, the
  state being left as it is. A \<^verbatim>\<open>loadGame\<close> that parses the file makes the board the
  \<^verbatim>\<open>board\<close> property of what it parsed, unchecked; for the file that \<^verbatim>\<open>saveGame\<close> wrote
  from a state of the data model this is a valid board.
\<close>

theorem board_invariant_preserved:
  "valid_board (board initial_state) \<and>
   (valid_board (board s) \<longrightarrow> valid_board (board (fst (makeMove s m)))) \<and>
   (valid_board (board s) \<longrightarrow>
      (file_text fs = None \<or>
       (\<exists>data. file_text fs = Some data \<and>
          (JSON_parse data = None \<or> JSON_parse data = Some JNull))) \<longrightarrow>
      valid_board (board (fst (loadGame fs s)))) \<and>
   (\<forall>data v b. file_text fs = Some data \<longrightarrow> JSON_parse data = Some v \<longrightarrow>
      js_member v (str ''board'') = Inr b \<longrightarrow>
      board (fst (loadGame fs s)) = b) \<and>
   (wf_grid g \<longrightarrow> writable fs \<longrightarrow>
      valid_board (board (fst (loadGame (fst (saveGame fs (state_of g turn))) s'))))"
proof -
  have a: "valid_board (board initial_state)"
    using valid_board_of [OF wf_standard] by (simp add: initial_state_grid state_of_def)
  have b: "valid_board (board (fst (loadGame fs s)))"
    if "valid_board (board s)"
      "file_text fs = None \<or>
       (\<exists>data. file_text fs = Some data \<and>
          (JSON_parse data = None \<or> JSON_parse data = Some JNull))"
    using that loadGame_fails [OF that(2), of s] by simp
  have c: "valid_board (board (fst (loadGame (fst (saveGame fs (state_of g turn))) s')))"
    if "wf_grid g" "writable fs"
    using save_load_grid [OF that, of turn s'] valid_board_of [OF that(1)]
    by (simp add: state_of_def)
  have d: "board (fst (loadGame fs s)) = b"
    if "file_text fs = Some data" "JSON_parse data = Some v" "js_member v (str ''board'') = Inr b"
    for data v b
    using loadGame_parsed [OF that, of s] by auto
  show ?thesis using a b c d makeMove_valid_board [of s m] by blast
qed

theorem board_invariant_preserved_witness:
  "valid_board (board initial_state) \<and>
   valid_board (board (fst (makeMove initial_state (str ''e2e4'')))) \<and>
   valid_board (board (fst (loadGame \<lparr>file_text = None, writable = True\<rparr> initial_state))) \<and>
   board (fst (loadGame \<lparr>file_text = Some (str ''{}''), writable = True\<rparr> initial_state)) =
     JUndefined \<and>
   valid_board (board (fst (loadGame
      (fst (saveGame \<lparr>file_text = None, writable = True\<rparr> (state_of standard_position BlackSide)))
      initial_state)))"
proof -
  have e: "js_member (JObj []) (str ''board'') = Inr JUndefined" by simp
  show ?thesis
    using board_invariant_preserved [of initial_state "str ''e2e4''"
        "\<lparr>file_text = None, writable = True\<rparr>" standard_position BlackSide initial_state]
      board_invariant_preserved [of initial_state "str ''e2e4''"
        "\<lparr>file_text = Some (str ''{}''), writable = True\<rparr>" standard_position BlackSide
        initial_state]
      wf_standard JSON_parse_examples(2) e
    by simp
qed

end
